theory Spec2Isabelle
  imports Main
begin

section \<open>Strings and Python's string primitives\<close>

text \<open>
  The program is \<^verbatim>\<open>Task02/generate_db_init.py\<close>. A Python \<^verbatim>\<open>str\<close> is a sequence of
  code points; it is modelled as a \<^typ>\<open>string\<close> whose characters are the code points
  U+0000 to U+00FF (so \<^term>\<open>of_char c :: nat\<close> is the code point). Code points above
  U+00FF are outside the model. The character classes below are Python 3.11's on that
  range.
\<close>

definition code :: "char \<Rightarrow> nat" where
  "code c = of_char c"

text \<open>\<^verbatim>\<open>str.isspace\<close>, which is also the class \<^verbatim>\<open>\s\<close> of \<^verbatim>\<open>re\<close> on a \<^verbatim>\<open>str\<close> pattern:
  U+0009..U+000D, U+001C..U+0020, U+0085, U+00A0.\<close>

definition isspace :: "char \<Rightarrow> bool" where
  "isspace c = ((9 \<le> code c \<and> code c \<le> 13) \<or> (28 \<le> code c \<and> code c \<le> 32)
                 \<or> code c = 133 \<or> code c = 160)"

text \<open>The class \<^verbatim>\<open>\d\<close> of \<^verbatim>\<open>re\<close>, and the decimal digits \<^verbatim>\<open>int\<close> and \<^verbatim>\<open>float\<close> accept:
  below U+0100 these are the ASCII digits only.\<close>

definition isdigit :: "char \<Rightarrow> bool" where
  "isdigit c = (48 \<le> code c \<and> code c \<le> 57)"

definition digit_value :: "char \<Rightarrow> nat" where
  "digit_value c = code c - 48"

text \<open>\<^verbatim>\<open>s.lstrip()\<close>, \<^verbatim>\<open>s.rstrip()\<close>, \<^verbatim>\<open>s.strip()\<close> with no argument.\<close>

definition lstrip :: "string \<Rightarrow> string" where
  "lstrip s = dropWhile isspace s"

definition rstrip :: "string \<Rightarrow> string" where
  "rstrip s = rev (dropWhile isspace (rev s))"

definition strip :: "string \<Rightarrow> string" where
  "strip s = rstrip (lstrip s)"

text \<open>\<^verbatim>\<open>s.startswith(p)\<close>, \<^verbatim>\<open>s.endswith(p)\<close> and \<^verbatim>\<open>sub in s\<close>.\<close>

fun startswith :: "string \<Rightarrow> string \<Rightarrow> bool" where
  "startswith s [] = True"
| "startswith [] (p # ps) = False"
| "startswith (c # cs) (p # ps) = (c = p \<and> startswith cs ps)"

definition endswith :: "string \<Rightarrow> string \<Rightarrow> bool" where
  "endswith s p = startswith (rev s) (rev p)"

fun contains :: "string \<Rightarrow> string \<Rightarrow> bool" where
  "contains sub [] = (sub = [])"
| "contains sub (c # cs) = (startswith (c # cs) sub \<or> contains sub cs)"

text \<open>\<^verbatim>\<open>sep.join(parts)\<close>.\<close>

fun join :: "string \<Rightarrow> string list \<Rightarrow> string" where
  "join sep [] = []"
| "join sep [p] = p"
| "join sep (p # q # ps) = p @ sep @ join sep (q # ps)"

text \<open>\<^verbatim>\<open>s.replace(old, new)\<close> for a one-character \<^verbatim>\<open>old\<close>.\<close>

primrec replace :: "char \<Rightarrow> string \<Rightarrow> string \<Rightarrow> string" where
  "replace old new [] = []"
| "replace old new (c # cs) = (if c = old then new else [c]) @ replace old new cs"

section \<open>Python's \<^verbatim>\<open>int\<close> and \<^verbatim>\<open>str\<close> on integers\<close>

text \<open>The exceptions the modelled code can raise: \<^verbatim>\<open>ValueError\<close> (from \<^verbatim>\<open>list.index\<close> and
  from \<^verbatim>\<open>str\<close> of a long integer) and \<^verbatim>\<open>csv.Error\<close> (from the reader of the \<^verbatim>\<open>csv\<close>
  module).\<close>

datatype py_error = ValueError | CsvError

text \<open>Since Python 3.11 the conversions between \<^verbatim>\<open>int\<close> and \<^verbatim>\<open>str\<close> refuse more than
  \<^verbatim>\<open>sys.get_int_max_str_digits()\<close> digits, which is 4300, with a \<^verbatim>\<open>ValueError\<close>.\<close>

definition int_max_str_digits :: nat where
  "int_max_str_digits = 4300"

text \<open>The decimal digits of a natural number.\<close>

definition digit_char :: "nat \<Rightarrow> char" where
  "digit_char d = ''0123456789'' ! d"

fun str_nat :: "nat \<Rightarrow> string" where
  "str_nat n = (if n < 10 then [digit_char n]
                else str_nat (n div 10) @ [digit_char (n mod 10)])"

declare str_nat.simps [simp del]

text \<open>\<^verbatim>\<open>str(i)\<close> for an integer: its decimal digits, with a minus sign when negative;
  the \<^verbatim>\<open>ValueError\<close> when it has more than 4300 digits.\<close>

definition str_int :: "int \<Rightarrow> py_error + string" where
  "str_int i =
     (let ds = str_nat (nat \<bar>i\<bar>)
      in if int_max_str_digits < length ds then Inl ValueError
         else Inr (if i < 0 then CHR ''-'' # ds else ds))"

text \<open>
  \<^verbatim>\<open>int(s)\<close> for a string, base 10. The whitespace \<^verbatim>\<open>int\<close> strips on both sides is
  U+0009..U+000D, U+0020, U+0085 and U+00A0 (not U+001C..U+001F); then an optional
  sign; then decimal digits, where a single underscore may stand between two digits.
  A string with more than 4300 digit characters is refused. \<open>None\<close> stands for the
  \<^verbatim>\<open>ValueError\<close>.
\<close>

definition int_isspace :: "char \<Rightarrow> bool" where
  "int_isspace c = ((9 \<le> code c \<and> code c \<le> 13) \<or> code c = 32
                     \<or> code c = 133 \<or> code c = 160)"

definition int_strip :: "string \<Rightarrow> string" where
  "int_strip s = rev (dropWhile int_isspace (rev (dropWhile int_isspace s)))"

fun int_digits :: "nat \<Rightarrow> string \<Rightarrow> nat option" where
  "int_digits acc [] = Some acc"
| "int_digits acc [c] = (if isdigit c then Some (10 * acc + digit_value c) else None)"
| "int_digits acc (c # d # cs) =
     (if isdigit c then int_digits (10 * acc + digit_value c) (d # cs)
      else if c = CHR ''_'' \<and> isdigit d then int_digits acc (d # cs)
      else None)"

definition int_unsigned :: "string \<Rightarrow> nat option" where
  "int_unsigned body =
     (case body of
        [] \<Rightarrow> None
      | c # cs \<Rightarrow>
          if \<not> isdigit c then None
          else if int_max_str_digits < length (filter isdigit body) then None
          else int_digits 0 body)"

definition int_of_str :: "string \<Rightarrow> int option" where
  "int_of_str s =
     (case int_strip s of
        [] \<Rightarrow> None
      | c # cs \<Rightarrow>
          if c = CHR ''-'' then map_option (\<lambda>n. - int n) (int_unsigned cs)
          else if c = CHR ''+'' then map_option int (int_unsigned cs)
          else map_option int (int_unsigned (c # cs)))"

section \<open>The schema catalog (lines 17-54)\<close>

text \<open>A value a row holds: \<^verbatim>\<open>None\<close>, a \<^verbatim>\<open>str\<close> (every field the row reader yields) or an
  \<^verbatim>\<open>int\<close> (the year the title parser returns).\<close>

datatype pyval = PNone | PStr string | PInt int

type_synonym column = "string \<times> string"

definition detect_movies_schema :: "pyval list \<Rightarrow> column list" where
  "detect_movies_schema sample_row =
     [(''id'', ''INTEGER PRIMARY KEY''),
      (''title'', ''TEXT NOT NULL''),
      (''year'', ''INTEGER''),
      (''genres'', ''TEXT'')]"

definition detect_ratings_schema :: "pyval list \<Rightarrow> column list" where
  "detect_ratings_schema sample_row =
     [(''id'', ''INTEGER PRIMARY KEY''),
      (''user_id'', ''INTEGER NOT NULL''),
      (''movie_id'', ''INTEGER NOT NULL''),
      (''rating'', ''REAL NOT NULL''),
      (''timestamp'', ''INTEGER NOT NULL'')]"

definition detect_tags_schema :: "pyval list \<Rightarrow> column list" where
  "detect_tags_schema sample_row =
     [(''id'', ''INTEGER PRIMARY KEY''),
      (''user_id'', ''INTEGER NOT NULL''),
      (''movie_id'', ''INTEGER NOT NULL''),
      (''tag'', ''TEXT NOT NULL''),
      (''timestamp'', ''INTEGER NOT NULL'')]"

definition detect_users_schema :: "pyval list \<Rightarrow> column list" where
  "detect_users_schema sample_row =
     [(''id'', ''INTEGER PRIMARY KEY''),
      (''name'', ''TEXT NOT NULL''),
      (''email'', ''TEXT NOT NULL''),
      (''gender'', ''TEXT''),
      (''register_date'', ''TEXT NOT NULL''),
      (''occupation'', ''TEXT'')]"

section \<open>Quoting (lines 57-60)\<close>

text \<open>\<^verbatim>\<open>str(value)\<close>.\<close>

fun str_val :: "pyval \<Rightarrow> py_error + string" where
  "str_val PNone = Inr ''None''"
| "str_val (PStr s) = Inr s"
| "str_val (PInt i) = str_int i"

definition sql_quote :: "pyval \<Rightarrow> py_error + string" where
  "sql_quote v =
     (if v = PNone then Inr ''NULL''
      else (case str_val v of
              Inl err \<Rightarrow> Inl err
            | Inr s \<Rightarrow>
                Inr ([CHR 0x27] @ replace (CHR 0x27) [CHR 0x27, CHR 0x27] s @ [CHR 0x27])))"

section \<open>The title parser (lines 92-109)\<close>

text \<open>
  \<^verbatim>\<open>year_pattern = re.compile(r"\((\d{4})\)\s*$")\<close>. A match that starts at the head of
  a string is an opening parenthesis, four digits, a closing parenthesis, and then
  whitespace up to the end: \<^verbatim>\<open>\s*\<close> is greedy and \<^verbatim>\<open>$\<close> holds at the end of the string or
  before a newline that ends it, and that newline is whitespace too, so the match always
  runs to the end of the string. \<open>year_pattern_match\<close> returns group 1.
\<close>

fun year_pattern_match :: "string \<Rightarrow> string option" where
  "year_pattern_match (c0 # d1 # d2 # d3 # d4 # c5 # rest) =
     (if c0 = CHR ''('' \<and> isdigit d1 \<and> isdigit d2 \<and> isdigit d3 \<and> isdigit d4
         \<and> c5 = CHR '')'' \<and> list_all isspace rest
      then Some [d1, d2, d3, d4] else None)"
| "year_pattern_match s = None"

text \<open>\<^verbatim>\<open>year_pattern.search(s)\<close>: the first position, from the left, with a match;
  \<open>None\<close> when there is none. The result is group 1 of the match.\<close>

fun year_pattern_search :: "string \<Rightarrow> string option" where
  "year_pattern_search [] = None"
| "year_pattern_search (c # cs) =
     (case year_pattern_match (c # cs) of
        Some g \<Rightarrow> Some g
      | None \<Rightarrow> year_pattern_search cs)"

text \<open>\<^verbatim>\<open>year_pattern.sub("", s)\<close>: every match, from the left, is replaced by the empty
  string. A match runs to the end of the string, so nothing is left after the first.\<close>

fun year_pattern_sub :: "string \<Rightarrow> string" where
  "year_pattern_sub [] = []"
| "year_pattern_sub (c # cs) =
     (case year_pattern_match (c # cs) of
        Some g \<Rightarrow> []
      | None \<Rightarrow> c # year_pattern_sub cs)"

definition extract_year_and_clean_title :: "string option \<Rightarrow> string option \<times> int option" where
  "extract_year_and_clean_title raw_title =
     (case raw_title of
        None \<Rightarrow> (None, None)
      | Some raw \<Rightarrow>
          (let title = strip raw in
           case year_pattern_search title of
             None \<Rightarrow> (Some title, None)
           | Some g \<Rightarrow>
               (let year = int_of_str g;
                    title1 = rstrip (year_pattern_sub title);
                    title2 = (if endswith title1 '','' then rstrip (butlast title1) else title1)
                in (Some title2, year))))"

section \<open>Table definitions (lines 112-114)\<close>

definition generate_create_table_sql :: "string \<Rightarrow> column list \<Rightarrow> string" where
  "generate_create_table_sql table_name columns =
     (let cols_sql = join '',\<newline>    '' (map (\<lambda>(name, ctype). name @ '' '' @ ctype) columns)
      in ''DROP TABLE IF EXISTS '' @ table_name @ '';\<newline>CREATE TABLE '' @ table_name
           @ '' (\<newline>    '' @ cols_sql @ ''\<newline>);\<newline>'')"

section \<open>Reading a string literal back\<close>

text \<open>
  The standard rule for an SQL string literal, used to state the round trip of
  \<open>sql_quote\<close>: the literal opens with a single quote; inside, two single quotes
  stand for one; a single quote that is not doubled closes the literal and must be its
  last character. \<open>None\<close> when the text is not such a literal.
\<close>

fun sql_unescape :: "string \<Rightarrow> string option" where
  "sql_unescape [] = None"
| "sql_unescape (c # cs) =
     (if c \<noteq> CHR 0x27 then map_option ((#) c) (sql_unescape cs)
      else (case cs of
              [] \<Rightarrow> Some []
            | d # ds \<Rightarrow> if d = CHR 0x27 then map_option ((#) d) (sql_unescape ds) else None))"

definition sql_literal_decode :: "string \<Rightarrow> string option" where
  "sql_literal_decode lit =
     (case lit of
        [] \<Rightarrow> None
      | c # cs \<Rightarrow> if c = CHR 0x27 then sql_unescape cs else None)"

section \<open>Auxiliary notions for the statements\<close>

text \<open>A string with no trailing whitespace, as \<open>rstrip\<close> and \<open>strip\<close> return it.\<close>

definition stripped :: "string \<Rightarrow> bool" where
  "stripped t = (t = [] \<or> \<not> isspace (last t))"

section \<open>Python's \<^verbatim>\<open>float\<close> and \<^verbatim>\<open>str\<close> on floats\<close>

text \<open>
  A Python \<^verbatim>\<open>float\<close> is an IEEE 754 binary64 number. A finite one is modelled by its sign,
  its significand \<open>m < 2 ^ 53\<close> and its exponent \<open>e\<close>, with value \<open>m * 2 ^ e\<close>, where
  \<open>- 1074 \<le> e \<le> 971\<close> and \<open>2 ^ 52 \<le> m\<close> unless \<open>e = - 1074\<close>; zero is \<open>m = 0\<close>, \<open>e = - 1074\<close>.
  All arithmetic below is exact, on natural numbers and integers.
\<close>

datatype pyfloat = Finite bool nat int | Infinite bool | NaN

fun bitlen :: "nat \<Rightarrow> nat" where
  "bitlen n = (if n = 0 then 0 else Suc (bitlen (n div 2)))"

declare bitlen.simps [simp del]

text \<open>The quotient \<open>num / den\<close> rounded to the nearest integer, a tie to the even one.\<close>

definition round_half_even :: "nat \<Rightarrow> nat \<Rightarrow> nat" where
  "round_half_even num den =
     (let q = num div den; r = num mod den
      in if den < 2 * r \<or> (2 * r = den \<and> odd q) then q + 1 else q)"

text \<open>For \<open>0 < p\<close> and \<open>0 < q\<close>: the integer \<open>k\<close> with \<open>2 ^ k \<le> p / q < 2 ^ (k + 1)\<close>.\<close>

definition floor_log2 :: "nat \<Rightarrow> nat \<Rightarrow> int" where
  "floor_log2 p q =
     (let k0 = int (bitlen p) - int (bitlen q);
          ge = (if 0 \<le> k0 then q * 2 ^ nat k0 \<le> p else q \<le> p * 2 ^ nat (- k0))
      in if ge then k0 else k0 - 1)"

text \<open>
  The binary64 number nearest to \<open>p / q\<close> (round to nearest, ties to even), as the pair
  of its significand and exponent; \<open>None\<close> when the result overflows to infinity.
\<close>

definition round_ratio :: "nat \<Rightarrow> nat \<Rightarrow> (nat \<times> int) option" where
  "round_ratio p q =
     (if p = 0 then Some (0, - 1074)
      else
        (let e = max (floor_log2 p q - 52) (- 1074);
             m = (if e < 0 then round_half_even (p * 2 ^ nat (- e)) q
                  else round_half_even p (q * 2 ^ nat e));
             m' = (if 2 ^ 53 \<le> m then m div 2 else m);
             e' = (if 2 ^ 53 \<le> m then e + 1 else e)
         in if 971 < e' then None else Some (m', e')))"

text \<open>The binary64 number nearest to \<open>c * 10 ^ s\<close>.\<close>

definition round_decimal :: "nat \<Rightarrow> int \<Rightarrow> (nat \<times> int) option" where
  "round_decimal c s =
     (if 0 \<le> s then round_ratio (c * 10 ^ nat s) 1 else round_ratio c (10 ^ nat (- s)))"

text \<open>
  \<^verbatim>\<open>float(s)\<close> for a string. When the string holds an underscore, each underscore must
  stand between two digits and is removed. Whitespace is stripped on both sides (the
  same characters as for \<^verbatim>\<open>int\<close>). What is left is an optional sign and then either a
  decimal number (digits with an optional point, at least one digit, and an optional
  exponent \<^verbatim>\<open>e\<close> or \<^verbatim>\<open>E\<close> with an optional sign and at least one digit), or one of
  \<^verbatim>\<open>inf\<close>, \<^verbatim>\<open>infinity\<close>, \<^verbatim>\<open>nan\<close> in any case. The number is rounded to the nearest binary64
  number; one too large becomes an infinity. \<open>None\<close> stands for the \<^verbatim>\<open>ValueError\<close>.
\<close>

fun remove_underscores :: "char \<Rightarrow> string \<Rightarrow> string option" where
  "remove_underscores prev [] = (if prev = CHR ''_'' then None else Some [])"
| "remove_underscores prev (c # cs) =
     (if c = CHR ''_''
      then (if isdigit prev then remove_underscores c cs else None)
      else (if prev = CHR ''_'' \<and> \<not> isdigit c then None
            else map_option ((#) c) (remove_underscores c cs)))"

definition ascii_lower :: "char \<Rightarrow> char" where
  "ascii_lower c = (if 65 \<le> code c \<and> code c \<le> 90 then char_of (code c + 32) else c)"

definition digits_nat :: "string \<Rightarrow> nat" where
  "digits_nat ds = foldl (\<lambda>a c. 10 * a + digit_value c) 0 ds"

text \<open>The exponent part of a decimal number, which must be all that is left of the
  string: empty (exponent 0), or \<^verbatim>\<open>e\<close>, an optional sign and digits.\<close>

definition float_exponent :: "string \<Rightarrow> int option" where
  "float_exponent r =
     (case r of
        [] \<Rightarrow> Some 0
      | c # cs \<Rightarrow>
          if c = CHR ''e'' \<or> c = CHR ''E'' then
            (let eneg = (cs \<noteq> [] \<and> hd cs = CHR ''-'');
                 r2 = (if cs \<noteq> [] \<and> (hd cs = CHR ''-'' \<or> hd cs = CHR ''+'') then tl cs else cs);
                 ed = takeWhile isdigit r2
             in if ed = [] \<or> dropWhile isdigit r2 \<noteq> [] then None
                else Some (if eneg then - int (digits_nat ed) else int (digits_nat ed)))
          else None)"

definition float_of_str :: "string \<Rightarrow> pyfloat option" where
  "float_of_str s0 =
     (case (if CHR ''_'' \<in> set s0 then remove_underscores (CHR 0x00) s0 else Some s0) of
        None \<Rightarrow> None
      | Some s1 \<Rightarrow>
          (let s2 = int_strip s1;
               neg = (s2 \<noteq> [] \<and> hd s2 = CHR ''-'');
               s3 = (if s2 \<noteq> [] \<and> (hd s2 = CHR ''-'' \<or> hd s2 = CHR ''+'') then tl s2 else s2);
               ip = takeWhile isdigit s3;
               r1 = dropWhile isdigit s3;
               point = (r1 \<noteq> [] \<and> hd r1 = CHR ''.'');
               fp = (if point then takeWhile isdigit (tl r1) else []);
               r2 = (if point then dropWhile isdigit (tl r1) else r1)
           in if ip = [] \<and> fp = [] then
                (let low = map ascii_lower s3
                 in if low = ''inf'' \<or> low = ''infinity'' then Some (Infinite neg)
                    else if low = ''nan'' then Some NaN
                    else None)
              else
                (case float_exponent r2 of
                   None \<Rightarrow> None
                 | Some ex \<Rightarrow>
                     (let n = digits_nat (ip @ fp)
                      in if n = 0 then Some (Finite neg 0 (- 1074))
                         else (case round_decimal n (ex - int (length fp)) of
                                 None \<Rightarrow> Some (Infinite neg)
                               | Some (m, e) \<Rightarrow> Some (Finite neg m e))))))"

text \<open>\<^verbatim>\<open>float(i)\<close> for an integer: the nearest binary64 number; \<open>None\<close> stands for the
  \<^verbatim>\<open>OverflowError\<close> when it is too large.\<close>

definition float_of_int :: "int \<Rightarrow> pyfloat option" where
  "float_of_int i =
     (case round_ratio (nat \<bar>i\<bar>) 1 of
        None \<Rightarrow> None
      | Some (m, e) \<Rightarrow> Some (Finite (i < 0) m e))"

text \<open>
  \<^verbatim>\<open>str(x)\<close> for a float, which is \<^verbatim>\<open>repr(x)\<close>: the shortest decimal digit string that
  reads back as \<open>x\<close>, the nearest to \<open>x\<close> when two of that length do. For \<open>n\<close> digits
  the candidates are the two integers around \<open>x / 10 ^ s\<close>, \<open>s\<close> being the position of
  the last digit; \<open>n\<close> runs from 1, and at 17 the nearest candidate is taken.
\<close>

text \<open>For \<open>0 < num\<close>, \<open>0 < den\<close>: the integer \<open>k\<close> with \<open>10 ^ (k - 1) \<le> num / den < 10 ^ k\<close>.\<close>

definition dec_point :: "nat \<Rightarrow> nat \<Rightarrow> int" where
  "dec_point num den =
     (if den \<le> num then int (length (str_nat (num div den)))
      else 1 - int (length (str_nat ((den + num - 1) div num - 1))))"

text \<open>\<open>m * 2 ^ e / 10 ^ s\<close> as a fraction.\<close>

definition scaled :: "nat \<Rightarrow> int \<Rightarrow> int \<Rightarrow> nat \<times> nat" where
  "scaled m e s =
     (let num = (if 0 \<le> e then m * 2 ^ nat e else m);
          den = (if 0 \<le> e then 1 else 2 ^ nat (- e))
      in if 0 \<le> s then (num, den * 10 ^ nat s) else (num * 10 ^ nat (- s), den))"

definition nearest :: "nat \<Rightarrow> int \<Rightarrow> int \<Rightarrow> nat" where
  "nearest m e s = (case scaled m e s of (ynum, yden) \<Rightarrow> round_half_even ynum yden)"

definition roundtrip_candidate :: "nat \<Rightarrow> int \<Rightarrow> int \<Rightarrow> nat option" where
  "roundtrip_candidate m e s =
     (case scaled m e s of (ynum, yden) \<Rightarrow>
        (let lo = ynum div yden;
             lo_ok = (round_decimal lo s = Some (m, e));
             hi_ok = (round_decimal (lo + 1) s = Some (m, e))
         in if lo_ok \<and> hi_ok then Some (nearest m e s)
            else if lo_ok then Some lo
            else if hi_ok then Some (lo + 1)
            else None))"

fun shortest_digits :: "nat \<Rightarrow> nat \<Rightarrow> int \<Rightarrow> int \<Rightarrow> nat \<Rightarrow> nat \<times> int" where
  "shortest_digits 0 m e k n = (nearest m e (k - int n), k - int n)"
| "shortest_digits (Suc fuel) m e k n =
     (case roundtrip_candidate m e (k - int n) of
        Some c \<Rightarrow> (c, k - int n)
      | None \<Rightarrow> shortest_digits fuel m e k (Suc n))"

text \<open>The digits of the shortest representation, without trailing zeros, and the
  position of the decimal point: the value is \<open>0.d\<^sub>1d\<^sub>2\<dots> * 10 ^ decpt\<close>.\<close>

definition shortest :: "nat \<Rightarrow> int \<Rightarrow> string \<times> int" where
  "shortest m e =
     (let num = (if 0 \<le> e then m * 2 ^ nat e else m);
          den = (if 0 \<le> e then 1 else 2 ^ nat (- e));
          k = dec_point num den
      in case shortest_digits 16 m e k 1 of (c, s) \<Rightarrow>
           (rev (dropWhile (\<lambda>d. d = CHR ''0'') (rev (str_nat c))),
            int (length (str_nat c)) + s))"

definition str_float :: "pyfloat \<Rightarrow> string" where
  "str_float x =
     (case x of
        NaN \<Rightarrow> ''nan''
      | Infinite neg \<Rightarrow> (if neg then ''-inf'' else ''inf'')
      | Finite neg m e \<Rightarrow>
          (if neg then ''-'' else '''') @
          (if m = 0 then ''0.0''
           else
             (case shortest m e of (ds, dp) \<Rightarrow>
                if dp \<le> - 4 \<or> 16 < dp then
                  (let ex = dp - 1;
                       es = str_nat (nat \<bar>ex\<bar>)
                   in [hd ds] @ (if 1 < length ds then ''.'' @ tl ds else '''')
                        @ ''e'' @ (if ex < 0 then ''-'' else ''+'')
                        @ (if length es < 2 then ''0'' else '''') @ es)
                else if dp \<le> 0 then ''0.'' @ replicate (nat (- dp)) (CHR ''0'') @ ds
                else if int (length ds) \<le> dp
                  then ds @ replicate (nat (dp - int (length ds))) (CHR ''0'') @ ''.0''
                else take (nat dp) ds @ ''.'' @ drop (nat dp) ds)))"

section \<open>Row statements (lines 63-74 and 117-139)\<close>

text \<open>\<open>try_int\<close> and \<open>try_float\<close> catch every exception of the conversion and return
  \<^verbatim>\<open>None\<close> then; \<^verbatim>\<open>int(None)\<close> and \<^verbatim>\<open>float(None)\<close> raise \<^verbatim>\<open>TypeError\<close>.\<close>

fun try_int :: "pyval \<Rightarrow> int option" where
  "try_int PNone = None"
| "try_int (PStr s) = int_of_str s"
| "try_int (PInt i) = Some i"

fun try_float :: "pyval \<Rightarrow> pyfloat option" where
  "try_float PNone = None"
| "try_float (PStr s) = float_of_str s"
| "try_float (PInt i) = float_of_int i"

text \<open>\<^verbatim>\<open>xs.index(x)\<close>: the first position of \<open>x\<close>; \<open>None\<close> stands for the \<^verbatim>\<open>ValueError\<close>
  when \<open>x\<close> is not in the list.\<close>

fun list_index :: "'a list \<Rightarrow> 'a \<Rightarrow> nat option" where
  "list_index [] x = None"
| "list_index (y # ys) x = (if y = x then Some 0 else map_option Suc (list_index ys x))"

text \<open>The body of the inner loop from line 125 on: the literal for the value \<open>v\<close> of a
  column of type \<open>ctype\<close>, or the exception of \<^verbatim>\<open>str(iv)\<close> (line 130) or of \<open>sql_quote\<close>,
  neither of which is inside a \<^verbatim>\<open>try\<close>.\<close>

definition coerce :: "string \<Rightarrow> pyval \<Rightarrow> py_error + string" where
  "coerce ctype v =
     (if v = PNone \<or> v = PStr '''' then Inr ''NULL''
      else if contains ''INTEGER'' ctype then
        (case try_int v of None \<Rightarrow> Inr ''NULL'' | Some iv \<Rightarrow> str_int iv)
      else if contains ''REAL'' ctype then
        (case try_float v of None \<Rightarrow> Inr ''NULL'' | Some fv \<Rightarrow> Inr (str_float fv))
      else sql_quote v)"

text \<open>The inner loop, over the columns, for one row \<open>r\<close>.\<close>

fun row_vals :: "string list \<Rightarrow> column list \<Rightarrow> pyval list \<Rightarrow> py_error + string list" where
  "row_vals col_names [] r = Inr []"
| "row_vals col_names ((name, ctype) # columns) r =
     (case list_index col_names name of
        None \<Rightarrow> Inl ValueError
      | Some idx \<Rightarrow>
          (let v = (if idx < length r then r ! idx else PNone)
           in case coerce ctype v of
                Inl err \<Rightarrow> Inl err
              | Inr lit \<Rightarrow>
                  (case row_vals col_names columns r of
                     Inl err \<Rightarrow> Inl err
                   | Inr vals \<Rightarrow> Inr (lit # vals))))"

text \<open>The outer loop, over the rows.\<close>

fun values_sql :: "string list \<Rightarrow> column list \<Rightarrow> pyval list list \<Rightarrow> py_error + string list" where
  "values_sql col_names columns [] = Inr []"
| "values_sql col_names columns (r # rows) =
     (case row_vals col_names columns r of
        Inl err \<Rightarrow> Inl err
      | Inr vals \<Rightarrow>
          (case values_sql col_names columns rows of
             Inl err \<Rightarrow> Inl err
           | Inr vs \<Rightarrow> Inr ((''('' @ join '', '' vals @ '')'') # vs)))"

definition generate_insert_sql ::
  "string \<Rightarrow> column list \<Rightarrow> pyval list list \<Rightarrow> py_error + string" where
  "generate_insert_sql table_name columns rows =
     (let col_names = map fst columns
      in case values_sql col_names columns rows of
           Inl err \<Rightarrow> Inl err
         | Inr vs \<Rightarrow>
             if vs = [] then Inr ''''
             else Inr (''INSERT INTO '' @ table_name @ '' ('' @ join '', '' col_names
                         @ '') VALUES\<newline>'' @ join '',\<newline>'' vs @ '';\<newline>''))"

section \<open>The row reader (lines 77-89)\<close>

text \<open>
  The file is opened in text mode with universal newlines: \<open>content\<close> is the decoded
  text of the file, in which \<^verbatim>\<open>\r\n\<close> and a lone \<^verbatim>\<open>\r\<close> are read as \<^verbatim>\<open>\n\<close>. The lines of the file,
  as \<^verbatim>\<open>readline\<close> and iteration give them, each end with \<^verbatim>\<open>\n\<close>, the last one perhaps not.
\<close>

fun universal_newlines :: "string \<Rightarrow> string" where
  "universal_newlines [] = []"
| "universal_newlines (c # cs) =
     (if c = CHR 0x0D then
        (case cs of
           [] \<Rightarrow> [CHR 0x0A]
         | d # ds \<Rightarrow> if d = CHR 0x0A then CHR 0x0A # universal_newlines ds
                    else CHR 0x0A # universal_newlines cs)
      else c # universal_newlines cs)"

fun split_lines :: "string \<Rightarrow> string \<Rightarrow> string list" where
  "split_lines line [] = (if line = [] then [] else [line])"
| "split_lines line (c # cs) =
     (if c = CHR 0x0A then (line @ [c]) # split_lines [] cs else split_lines (line @ [c]) cs)"

definition file_lines :: "string \<Rightarrow> string list" where
  "file_lines content = split_lines [] (universal_newlines content)"

definition readline :: "string \<Rightarrow> string" where
  "readline content = (case file_lines content of [] \<Rightarrow> [] | l # ls \<Rightarrow> l)"

text \<open>\<^verbatim>\<open>s.lower()\<close>: below U+0100 the capital letters are A to Z and U+00C0 to U+00DE
  without U+00D7, and each is 32 below its small letter.\<close>

definition lower_char :: "char \<Rightarrow> char" where
  "lower_char c =
     (if (65 \<le> code c \<and> code c \<le> 90) \<or> (192 \<le> code c \<and> code c \<le> 222 \<and> code c \<noteq> 215)
      then char_of (code c + 32) else c)"

definition lower :: "string \<Rightarrow> string" where
  "lower s = map lower_char s"

definition header_keywords :: "string list" where
  "header_keywords =
     [''id'', ''title'', ''user_id'', ''movie_id'', ''rating'', ''timestamp'', ''name'', ''email'']"

definition has_header :: "string \<Rightarrow> bool" where
  "has_header first_line = list_ex (\<lambda>h. contains h (lower first_line)) header_keywords"

text \<open>
  \<^verbatim>\<open>csv.reader(f, delimiter=delimiter)\<close>, in the \<^verbatim>\<open>excel\<close> dialect otherwise: the quote
  character is the double quote, a doubled quote inside a quoted field stands for one,
  there is no escape character, initial spaces are kept, and the reader is not strict.
  The reader is the state machine of the \<^verbatim>\<open>_csv\<close> module; its states for an escape
  character cannot be reached and are left out. A field may hold at most
  \<^verbatim>\<open>csv.field_size_limit()\<close> characters, which is 131072.
\<close>

datatype parser_state =
  START_RECORD | START_FIELD | IN_FIELD | IN_QUOTED_FIELD | QUOTE_IN_QUOTED_FIELD | EAT_CRNL

record reader =
  state :: parser_state
  record_fields :: "string list"
  field :: string

definition field_limit :: nat where
  "field_limit = 131072"

definition parse_reset :: reader where
  "parse_reset = \<lparr>state = START_RECORD, record_fields = [], field = []\<rparr>"

definition parse_add_char :: "reader \<Rightarrow> char \<Rightarrow> parser_state \<Rightarrow> py_error + reader" where
  "parse_add_char r c st =
     (if field_limit \<le> length (field r) then Inl CsvError
      else Inr (r\<lparr>field := field r @ [c], state := st\<rparr>))"

definition parse_save_field :: "reader \<Rightarrow> parser_state \<Rightarrow> reader" where
  "parse_save_field r st = r\<lparr>record_fields := record_fields r @ [field r], field := [], state := st\<rparr>"

text \<open>One character, or the end of the line (\<open>None\<close>). \<open>start_field\<close> is the case
  \<^verbatim>\<open>START_FIELD\<close>, into which \<^verbatim>\<open>START_RECORD\<close> falls through.\<close>

definition is_newline :: "char option \<Rightarrow> bool" where
  "is_newline c = (c = Some (CHR 0x0A) \<or> c = Some (CHR 0x0D))"

definition after_line :: "char option \<Rightarrow> parser_state" where
  "after_line c = (if c = None then START_RECORD else EAT_CRNL)"

definition start_field :: "char \<Rightarrow> reader \<Rightarrow> char option \<Rightarrow> py_error + reader" where
  "start_field delimiter r c =
     (if is_newline c \<or> c = None then Inr (parse_save_field r (after_line c))
      else if c = Some (CHR 0x22) then Inr (r\<lparr>state := IN_QUOTED_FIELD\<rparr>)
      else if c = Some delimiter then Inr (parse_save_field r START_FIELD)
      else parse_add_char r (the c) IN_FIELD)"

definition parse_process_char :: "char \<Rightarrow> reader \<Rightarrow> char option \<Rightarrow> py_error + reader" where
  "parse_process_char delimiter r c =
     (case state r of
        START_RECORD \<Rightarrow>
          if c = None then Inr r
          else if is_newline c then Inr (r\<lparr>state := EAT_CRNL\<rparr>)
          else start_field delimiter r c
      | START_FIELD \<Rightarrow> start_field delimiter r c
      | IN_FIELD \<Rightarrow>
          if is_newline c \<or> c = None then Inr (parse_save_field r (after_line c))
          else if c = Some delimiter then Inr (parse_save_field r START_FIELD)
          else parse_add_char r (the c) IN_FIELD
      | IN_QUOTED_FIELD \<Rightarrow>
          if c = None then Inr r
          else if c = Some (CHR 0x22) then Inr (r\<lparr>state := QUOTE_IN_QUOTED_FIELD\<rparr>)
          else parse_add_char r (the c) IN_QUOTED_FIELD
      | QUOTE_IN_QUOTED_FIELD \<Rightarrow>
          if c = Some (CHR 0x22) then parse_add_char r (the c) IN_QUOTED_FIELD
          else if c = Some delimiter then Inr (parse_save_field r START_FIELD)
          else if is_newline c \<or> c = None then Inr (parse_save_field r (after_line c))
          else parse_add_char r (the c) IN_FIELD
      | EAT_CRNL \<Rightarrow>
          if is_newline c then Inr r
          else if c = None then Inr (r\<lparr>state := START_RECORD\<rparr>)
          else Inl CsvError)"

text \<open>One line: its characters, then the end of the line.\<close>

fun process_line :: "char \<Rightarrow> reader \<Rightarrow> string \<Rightarrow> py_error + reader" where
  "process_line delimiter r [] = parse_process_char delimiter r None"
| "process_line delimiter r (c # cs) =
     (case parse_process_char delimiter r (Some c) of
        Inl err \<Rightarrow> Inl err
      | Inr r' \<Rightarrow> process_line delimiter r' cs)"

text \<open>
  All the records the reader returns, one call of \<^verbatim>\<open>next\<close> after the other. In one call
  the reader takes lines until its state is \<^verbatim>\<open>START_RECORD\<close> again; at the end of the
  input it returns what it holds when a field has begun or a quoted field is open, and
  stops otherwise. \<open>r\<close> is the state within the current call.
\<close>

fun reader_records :: "char \<Rightarrow> reader \<Rightarrow> string list \<Rightarrow> py_error + string list list" where
  "reader_records delimiter r [] =
     (if field r \<noteq> [] \<or> state r = IN_QUOTED_FIELD
      then Inr [record_fields (parse_save_field r (state r))] else Inr [])"
| "reader_records delimiter r (l # ls) =
     (case process_line delimiter r l of
        Inl err \<Rightarrow> Inl err
      | Inr r' \<Rightarrow>
          if state r' \<noteq> START_RECORD then reader_records delimiter r' ls
          else (case reader_records delimiter parse_reset ls of
                  Inl err \<Rightarrow> Inl err
                | Inr recs \<Rightarrow> Inr (record_fields r' # recs)))"

text \<open>Line 88: the rows the generator yields.\<close>

definition row_kept :: "string list \<Rightarrow> bool" where
  "row_kept row = (row \<noteq> [] \<and> list_ex (\<lambda>col. strip col \<noteq> []) row)"

text \<open>\<open>read_csv_rows\<close> as its caller uses it, \<^verbatim>\<open>list(read_csv_rows(path, delimiter))\<close>:
  all rows, or the exception.\<close>

definition read_csv_rows :: "string \<Rightarrow> char \<Rightarrow> py_error + string list list" where
  "read_csv_rows content delimiter =
     (let first_line = readline content
      in case reader_records delimiter parse_reset (file_lines content) of
           Inl err \<Rightarrow> Inl err
         | Inr recs \<Rightarrow>
             Inr (filter row_kept (if has_header first_line then drop 1 recs else recs)))"

section \<open>The script (lines 142-195)\<close>

text \<open>Lines 154-159: a row of the movies file becomes the four values of the movies
  table.\<close>

definition opt_str :: "string option \<Rightarrow> pyval" where
  "opt_str v = (case v of None \<Rightarrow> PNone | Some s \<Rightarrow> PStr s)"

definition opt_int :: "int option \<Rightarrow> pyval" where
  "opt_int v = (case v of None \<Rightarrow> PNone | Some i \<Rightarrow> PInt i)"

definition movie_row :: "string list \<Rightarrow> pyval list" where
  "movie_row r =
     (let movie_id = (if 0 < length r then PStr (r ! 0) else PNone);
          raw_title = (if 1 < length r then Some (r ! 1) else None);
          genres = (if 2 < length r then PStr (r ! 2) else PNone)
      in case extract_year_and_clean_title raw_title of
           (clean_title, year) \<Rightarrow> [movie_id, opt_str clean_title, opt_int year, genres])"

text \<open>The sample row handed to a schema function: \<^verbatim>\<open>rows[0] if rows else []\<close>.\<close>

definition sample_row :: "string list list \<Rightarrow> pyval list" where
  "sample_row rows = (case rows of [] \<Rightarrow> [] | r # rs \<Rightarrow> map PStr r)"

text \<open>Lines 180-187: \<^verbatim>\<open>if rows: sql_parts.append(generate_insert_sql(...))\<close>.\<close>

definition insert_part :: "string \<Rightarrow> column list \<Rightarrow> pyval list list \<Rightarrow> py_error + string list" where
  "insert_part table_name columns rows =
     (if rows = [] then Inr []
      else (case generate_insert_sql table_name columns rows of
              Inl err \<Rightarrow> Inl err
            | Inr sql \<Rightarrow> Inr [sql]))"

text \<open>Lines 152-193 once the four files are read: the text written to
  \<^verbatim>\<open>db_init.sql\<close>.\<close>

definition assemble ::
  "string list list \<Rightarrow> string list list \<Rightarrow> string list list \<Rightarrow> string list list
     \<Rightarrow> py_error + string" where
  "assemble raw_movie_rows rating_rows tag_rows user_rows =
     (let movies_columns = detect_movies_schema (sample_row raw_movie_rows);
          movie_rows = map movie_row raw_movie_rows;
          ratings_columns = detect_ratings_schema (sample_row rating_rows);
          tags_columns = detect_tags_schema (sample_row tag_rows);
          users_columns = detect_users_schema (sample_row user_rows);
          head_parts =
            [''-- SQLite init script for movies_rating.db'',
             ''PRAGMA foreign_keys = OFF;'',
             ''BEGIN TRANSACTION;'',
             generate_create_table_sql ''movies'' movies_columns,
             generate_create_table_sql ''ratings'' ratings_columns,
             generate_create_table_sql ''tags'' tags_columns,
             generate_create_table_sql ''users'' users_columns]
      in case insert_part ''movies'' movies_columns movie_rows of
           Inl err \<Rightarrow> Inl err
         | Inr p1 \<Rightarrow>
        (case insert_part ''ratings'' ratings_columns (map (map PStr) rating_rows) of
           Inl err \<Rightarrow> Inl err
         | Inr p2 \<Rightarrow>
        (case insert_part ''tags'' tags_columns (map (map PStr) tag_rows) of
           Inl err \<Rightarrow> Inl err
         | Inr p3 \<Rightarrow>
        (case insert_part ''users'' users_columns (map (map PStr) user_rows) of
           Inl err \<Rightarrow> Inl err
         | Inr p4 \<Rightarrow>
             (let sql_parts = head_parts @ p1 @ p2 @ p3 @ p4 @ [''COMMIT;'']
              in Inr (join ''\<newline>\<newline>'' (filter (\<lambda>p. p \<noteq> []) sql_parts)))))))"

text \<open>
  \<open>main\<close>: \<open>files\<close> gives the text of each of the four input files by its key in
  \<^verbatim>\<open>DATA_FILES\<close>, \<open>None\<close> for a file that does not exist. The outcome is the list of the
  missing files (the program prints it and exits with status 1), an exception, or the
  text written to \<^verbatim>\<open>db_init.sql\<close>.
\<close>

datatype outcome = Missing "string list" | Raised py_error | Written string

definition main :: "(string \<Rightarrow> string option) \<Rightarrow> outcome" where
  "main files =
     (let missing = filter (\<lambda>k. files k = None) [''movies'', ''ratings'', ''tags'', ''users'']
      in if missing \<noteq> [] then Missing missing
         else
           (case read_csv_rows (the (files ''movies'')) (CHR '','') of
              Inl err \<Rightarrow> Raised err
            | Inr raw_movie_rows \<Rightarrow>
           (case read_csv_rows (the (files ''ratings'')) (CHR '','') of
              Inl err \<Rightarrow> Raised err
            | Inr rating_rows \<Rightarrow>
           (case read_csv_rows (the (files ''tags'')) (CHR '','') of
              Inl err \<Rightarrow> Raised err
            | Inr tag_rows \<Rightarrow>
           (case read_csv_rows (the (files ''users'')) (CHR ''|'') of
              Inl err \<Rightarrow> Raised err
            | Inr user_rows \<Rightarrow>
           (case assemble raw_movie_rows rating_rows tag_rows user_rows of
              Inl err \<Rightarrow> Raised err
            | Inr script \<Rightarrow> Written script))))))"



text \<open>The values whose \<^verbatim>\<open>str\<close> does not fail: \<^verbatim>\<open>None\<close>, every string, and the integers of at
  most 4300 digits.\<close>

definition printable :: "pyval \<Rightarrow> bool" where
  "printable v = (case v of PInt i \<Rightarrow> \<bar>i\<bar> < 10 ^ int_max_str_digits | _ \<Rightarrow> True)"

section \<open>Auxiliary notions for the script\<close>

text \<open>A block of the script as it enters the final text: nothing when it is empty.\<close>

definition block :: "py_error + string \<Rightarrow> string list" where
  "block b = (case b of Inl err \<Rightarrow> [] | Inr sql \<Rightarrow> if sql = [] then [] else [sql])"

text \<open>The seven parts every script begins with.\<close>

definition fixed_parts :: "pyval list \<Rightarrow> pyval list \<Rightarrow> pyval list \<Rightarrow> pyval list \<Rightarrow> string list" where
  "fixed_parts s1 s2 s3 s4 =
     [''-- SQLite init script for movies_rating.db'',
      ''PRAGMA foreign_keys = OFF;'',
      ''BEGIN TRANSACTION;'',
      generate_create_table_sql ''movies'' (detect_movies_schema s1),
      generate_create_table_sql ''ratings'' (detect_ratings_schema s2),
      generate_create_table_sql ''tags'' (detect_tags_schema s3),
      generate_create_table_sql ''users'' (detect_users_schema s4)]"

text \<open>All parts of the script, in their order.\<close>

definition script_parts ::
  "pyval list \<Rightarrow> pyval list \<Rightarrow> pyval list \<Rightarrow> pyval list \<Rightarrow>
   string list list \<Rightarrow> string list list \<Rightarrow> string list list \<Rightarrow> string list list \<Rightarrow> string list" where
  "script_parts s1 s2 s3 s4 m r t u =
     fixed_parts s1 s2 s3 s4
     @ block (generate_insert_sql ''movies'' (detect_movies_schema s1) (map movie_row m))
     @ block (generate_insert_sql ''ratings'' (detect_ratings_schema s2) (map (map PStr) r))
     @ block (generate_insert_sql ''tags'' (detect_tags_schema s3) (map (map PStr) t))
     @ block (generate_insert_sql ''users'' (detect_users_schema s4) (map (map PStr) u))
     @ [''COMMIT;'']"

section \<open>Auxiliary notions for the row reader\<close>

text \<open>A row is empty when every field of it is blank after trimming.\<close>

definition row_empty :: "string list \<Rightarrow> bool" where
  "row_empty row = list_all (\<lambda>col. strip col = []) row"

text \<open>
  The row reader as the specification words it, for comparison with \<open>read_csv_rows\<close>:
  when the first physical line holds a keyword, that line is skipped and the lines
  after it are the data; otherwise every line is data; the non-empty rows are yielded.
\<close>

definition read_csv_rows_by_line :: "string \<Rightarrow> char \<Rightarrow> py_error + string list list" where
  "read_csv_rows_by_line content delimiter =
     (let lines = file_lines content;
          data_lines = (if has_header (readline content) then tl lines else lines)
      in case reader_records delimiter parse_reset data_lines of
           Inl err \<Rightarrow> Inl err
         | Inr recs \<Rightarrow> Inr (filter (\<lambda>row. \<not> row_empty row) recs))"

text \<open>A file whose first line holds the keyword \<^verbatim>\<open>id\<close> inside a quoted field that goes on
  in the second line.\<close>

definition quoted_header_file :: string where
  "quoted_header_file = [CHR 0x22] @ ''id\<newline>foo'' @ [CHR 0x22] @ '',x\<newline>1,2\<newline>''"

section \<open>Quoting: the round trip\<close>

lemma sql_unescape_replace:
  "sql_unescape (replace (CHR 0x27) [CHR 0x27, CHR 0x27] s @ [CHR 0x27]) = Some s"
  by (induction s) (auto split: list.splits)

lemma replace_concat:
  "replace old new s = concat (map (\<lambda>c. if c = old then new else [c]) s)"
  by (induction s) auto

text \<open>
  C3. For every string \<open>s\<close>, \<open>sql_quote\<close> returns \<open>s\<close> between two single quotes
  with every single quote of \<open>s\<close> doubled and every other character unchanged, and
  reading that literal back by the standard rule gives \<open>s\<close> again.
\<close>

theorem sql_quote_roundtrip:
  "sql_quote (PStr s) =
     Inr ([CHR 0x27] @ concat (map (\<lambda>c. if c = CHR 0x27 then [CHR 0x27, CHR 0x27] else [c]) s)
            @ [CHR 0x27])
   \<and> (case sql_quote (PStr s) of Inl err \<Rightarrow> None | Inr lit \<Rightarrow> sql_literal_decode lit) = Some s"
  by (simp add: sql_quote_def sql_literal_decode_def sql_unescape_replace
      replace_concat [symmetric])

section \<open>The schema catalog and the table definitions\<close>

text \<open>
  C4. Each of the four schema functions returns its fixed column list whatever the
  sample row is, and the statement generated from it for its table is the DROP
  statement followed by a CREATE TABLE statement that lists exactly these columns, in
  this order.
\<close>

theorem schema_constant_and_create_table:
  "detect_movies_schema r1 =
     [(''id'', ''INTEGER PRIMARY KEY''), (''title'', ''TEXT NOT NULL''),
      (''year'', ''INTEGER''), (''genres'', ''TEXT'')]
   \<and> detect_ratings_schema r2 =
     [(''id'', ''INTEGER PRIMARY KEY''), (''user_id'', ''INTEGER NOT NULL''),
      (''movie_id'', ''INTEGER NOT NULL''), (''rating'', ''REAL NOT NULL''),
      (''timestamp'', ''INTEGER NOT NULL'')]
   \<and> detect_tags_schema r3 =
     [(''id'', ''INTEGER PRIMARY KEY''), (''user_id'', ''INTEGER NOT NULL''),
      (''movie_id'', ''INTEGER NOT NULL''), (''tag'', ''TEXT NOT NULL''),
      (''timestamp'', ''INTEGER NOT NULL'')]
   \<and> detect_users_schema r4 =
     [(''id'', ''INTEGER PRIMARY KEY''), (''name'', ''TEXT NOT NULL''),
      (''email'', ''TEXT NOT NULL''), (''gender'', ''TEXT''),
      (''register_date'', ''TEXT NOT NULL''), (''occupation'', ''TEXT'')]
   \<and> generate_create_table_sql ''movies'' (detect_movies_schema r1) =
     ''DROP TABLE IF EXISTS movies;\<newline>CREATE TABLE movies (\<newline>    id INTEGER PRIMARY KEY,\<newline>    title TEXT NOT NULL,\<newline>    year INTEGER,\<newline>    genres TEXT\<newline>);\<newline>''
   \<and> generate_create_table_sql ''ratings'' (detect_ratings_schema r2) =
     ''DROP TABLE IF EXISTS ratings;\<newline>CREATE TABLE ratings (\<newline>    id INTEGER PRIMARY KEY,\<newline>    user_id INTEGER NOT NULL,\<newline>    movie_id INTEGER NOT NULL,\<newline>    rating REAL NOT NULL,\<newline>    timestamp INTEGER NOT NULL\<newline>);\<newline>''
   \<and> generate_create_table_sql ''tags'' (detect_tags_schema r3) =
     ''DROP TABLE IF EXISTS tags;\<newline>CREATE TABLE tags (\<newline>    id INTEGER PRIMARY KEY,\<newline>    user_id INTEGER NOT NULL,\<newline>    movie_id INTEGER NOT NULL,\<newline>    tag TEXT NOT NULL,\<newline>    timestamp INTEGER NOT NULL\<newline>);\<newline>''
   \<and> generate_create_table_sql ''users'' (detect_users_schema r4) =
     ''DROP TABLE IF EXISTS users;\<newline>CREATE TABLE users (\<newline>    id INTEGER PRIMARY KEY,\<newline>    name TEXT NOT NULL,\<newline>    email TEXT NOT NULL,\<newline>    gender TEXT,\<newline>    register_date TEXT NOT NULL,\<newline>    occupation TEXT\<newline>);\<newline>''"
  by (simp add: generate_create_table_sql_def detect_movies_schema_def
      detect_ratings_schema_def detect_tags_schema_def detect_users_schema_def)

section \<open>The title parser\<close>


lemma stripped_rstrip: "stripped (rstrip s)"
proof -
  have "dropWhile isspace (rev s) = [] \<or> \<not> isspace (hd (dropWhile isspace (rev s)))"
    using hd_dropWhile by blast
  then show ?thesis
    by (auto simp: stripped_def rstrip_def last_rev)
qed

lemma stripped_strip: "stripped (strip s)"
  by (simp add: strip_def stripped_rstrip)

lemma stripped_tl: "stripped (c # cs) \<Longrightarrow> cs \<noteq> [] \<Longrightarrow> stripped cs"
  by (simp add: stripped_def)

lemma list_all_last: "list_all P xs \<Longrightarrow> xs \<noteq> [] \<Longrightarrow> P (last xs)"
  by (simp add: list_all_iff)

lemma match_long_none:
  assumes "6 < length s" and "stripped s"
  shows "year_pattern_match s = None"
proof (cases s rule: year_pattern_match.cases)
  case (1 c0 d1 d2 d3 d4 c5 rest)
  with assms(1) have ne: "rest \<noteq> []" by auto
  with assms(2) 1 have "\<not> isspace (last rest)" by (simp add: stripped_def)
  with ne have "\<not> list_all isspace rest" using list_all_last by blast
  with 1 show ?thesis by simp
qed simp_all

lemma match_short_none: "length s < 6 \<Longrightarrow> year_pattern_match s = None"
  by (cases s rule: year_pattern_match.cases) auto

lemma search_stripped:
  "stripped t \<Longrightarrow> year_pattern_search t =
     (if 6 \<le> length t then year_pattern_match (drop (length t - 6) t) else None)"
proof (induction t)
  case Nil
  then show ?case by simp
next
  case (Cons c cs)
  show ?case
  proof (cases "length (c # cs) = 6")
    case True
    then have "cs \<noteq> []" by auto
    then have "stripped cs" using Cons.prems stripped_tl by blast
    with Cons.IH True have "year_pattern_search cs = None" by simp
    with True show ?thesis by (simp split: option.splits)
  next
    case False
    show ?thesis
    proof (cases "6 < length (c # cs)")
      case True
      then have m: "year_pattern_match (c # cs) = None"
        using Cons.prems match_long_none by blast
      from True have "cs \<noteq> []" by auto
      then have "stripped cs" using Cons.prems stripped_tl by blast
      with Cons.IH have "year_pattern_search cs =
         (if 6 \<le> length cs then year_pattern_match (drop (length cs - 6) cs) else None)" by simp
      moreover from True have "drop (length (c # cs) - 6) (c # cs) = drop (length cs - 6) cs"
        by (simp add: Suc_diff_le drop_Cons')
      ultimately show ?thesis using m True by simp
    next
      case f: False
      with False have l: "length (c # cs) < 6" by simp
      then have "year_pattern_match (c # cs) = None" by (rule match_short_none)
      moreover have "year_pattern_search cs = None"
      proof (cases "cs = []")
        case True then show ?thesis by simp
      next
        case False
        then have "stripped cs" using Cons.prems stripped_tl by blast
        with Cons.IH l show ?thesis by simp
      qed
      ultimately show ?thesis using l by simp
    qed
  qed
qed

lemma sub_stripped:
  "stripped t \<Longrightarrow> year_pattern_sub t =
     (if 6 \<le> length t \<and> year_pattern_match (drop (length t - 6) t) \<noteq> None
      then take (length t - 6) t else t)"
proof (induction t)
  case Nil
  then show ?case by simp
next
  case (Cons c cs)
  show ?case
  proof (cases "length (c # cs) = 6")
    case True
    then have "cs \<noteq> []" by auto
    then have "stripped cs" using Cons.prems stripped_tl by blast
    with Cons.IH True have "year_pattern_sub cs = cs" by simp
    with True show ?thesis by (simp split: option.splits)
  next
    case False
    show ?thesis
    proof (cases "6 < length (c # cs)")
      case True
      then have m: "year_pattern_match (c # cs) = None"
        using Cons.prems match_long_none by blast
      from True have "cs \<noteq> []" by auto
      then have "stripped cs" using Cons.prems stripped_tl by blast
      with Cons.IH have "year_pattern_sub cs =
         (if 6 \<le> length cs \<and> year_pattern_match (drop (length cs - 6) cs) \<noteq> None
          then take (length cs - 6) cs else cs)" by simp
      moreover from True have "drop (length (c # cs) - 6) (c # cs) = drop (length cs - 6) cs"
        by (simp add: Suc_diff_le drop_Cons')
      moreover from True have "take (length (c # cs) - 6) (c # cs) = c # take (length cs - 6) cs"
        by (simp add: Suc_diff_le take_Cons')
      ultimately show ?thesis using m True by simp
    next
      case f: False
      with False have l: "length (c # cs) < 6" by simp
      then have "year_pattern_match (c # cs) = None" by (rule match_short_none)
      moreover have "year_pattern_sub cs = cs"
      proof (cases "cs = []")
        case True then show ?thesis by simp
      next
        case False
        then have "stripped cs" using Cons.prems stripped_tl by blast
        with Cons.IH l show ?thesis by simp
      qed
      ultimately show ?thesis using l by simp
    qed
  qed
qed

lemma match_six:
  "year_pattern_match [c0, d1, d2, d3, d4, c5] =
     (if c0 = CHR ''('' \<and> isdigit d1 \<and> isdigit d2 \<and> isdigit d3 \<and> isdigit d4 \<and> c5 = CHR '')''
      then Some [d1, d2, d3, d4] else None)"
  by simp

lemma isdigit_not_int_isspace: "isdigit c \<Longrightarrow> \<not> int_isspace c"
  by (auto simp: isdigit_def int_isspace_def)

lemma isdigit_not_sign: "isdigit c \<Longrightarrow> c \<noteq> CHR ''-'' \<and> c \<noteq> CHR ''+''"
  by (auto simp: isdigit_def code_def)

lemma int_of_str_four:
  assumes "isdigit d1" "isdigit d2" "isdigit d3" "isdigit d4"
  shows "int_of_str [d1, d2, d3, d4] =
     Some (int (1000 * digit_value d1 + 100 * digit_value d2 + 10 * digit_value d3 + digit_value d4))"
  using assms
  by (simp add: int_of_str_def int_strip_def isdigit_not_int_isspace isdigit_not_sign
      int_unsigned_def int_max_str_digits_def)

lemma endswith_comma: "endswith s '','' = (s \<noteq> [] \<and> last s = CHR '','')"
  by (cases s rule: rev_cases) (simp_all add: endswith_def)

lemma match_Some_six:
  assumes "year_pattern_match s = Some g" and "length s = 6"
  shows "\<exists>d1 d2 d3 d4. s = [CHR ''('', d1, d2, d3, d4, CHR '')''] \<and> g = [d1, d2, d3, d4]
           \<and> isdigit d1 \<and> isdigit d2 \<and> isdigit d3 \<and> isdigit d4"
  using assms by (cases s rule: year_pattern_match.cases) (auto split: if_splits)

lemma extract_match:
  assumes t: "strip raw = pre @ [CHR ''('', d1, d2, d3, d4, CHR '')'']"
    and d: "isdigit d1" "isdigit d2" "isdigit d3" "isdigit d4"
  shows "extract_year_and_clean_title (Some raw) =
     (Some (let t = rstrip pre in if t \<noteq> [] \<and> last t = CHR '','' then rstrip (butlast t) else t),
      Some (int (1000 * digit_value d1 + 100 * digit_value d2 + 10 * digit_value d3 + digit_value d4)))"
proof -
  let ?t = "strip raw"
  have st: "stripped ?t" by (rule stripped_strip)
  have len: "length ?t = length pre + 6" by (simp add: t)
  have dr: "drop (length ?t - 6) ?t = [CHR ''('', d1, d2, d3, d4, CHR '')'']"
    unfolding len by (simp add: t)
  have tk: "take (length ?t - 6) ?t = pre"
    unfolding len by (simp add: t)
  have m: "year_pattern_match [CHR ''('', d1, d2, d3, d4, CHR '')''] = Some [d1, d2, d3, d4]"
    using d by simp
  have s1: "year_pattern_search ?t = Some [d1, d2, d3, d4]"
    using search_stripped [OF st] len dr m by simp
  have s2: "year_pattern_sub ?t = pre"
    using sub_stripped [OF st] len dr tk m by simp
  show ?thesis
    unfolding extract_year_and_clean_title_def
    by (simp add: s1 s2 int_of_str_four [OF d] endswith_comma Let_def)
qed

lemma extract_no_match:
  assumes "\<not> (\<exists>pre d1 d2 d3 d4. strip raw = pre @ [CHR ''('', d1, d2, d3, d4, CHR '')'']
             \<and> isdigit d1 \<and> isdigit d2 \<and> isdigit d3 \<and> isdigit d4)"
  shows "extract_year_and_clean_title (Some raw) = (Some (strip raw), None)"
proof -
  let ?t = "strip raw"
  have st: "stripped ?t" by (rule stripped_strip)
  have "year_pattern_search ?t = None"
  proof (cases "6 \<le> length ?t")
    case False
    then show ?thesis using search_stripped [OF st] by simp
  next
    case True
    have "year_pattern_match (drop (length ?t - 6) ?t) = None"
    proof (rule ccontr)
      assume "year_pattern_match (drop (length ?t - 6) ?t) \<noteq> None"
      then obtain g where g: "year_pattern_match (drop (length ?t - 6) ?t) = Some g" by auto
      have "length (drop (length ?t - 6) ?t) = 6" using True by simp
      from match_Some_six [OF g this] obtain d1 d2 d3 d4 where
        "drop (length ?t - 6) ?t = [CHR ''('', d1, d2, d3, d4, CHR '')'']"
        "isdigit d1" "isdigit d2" "isdigit d3" "isdigit d4" by blast
      moreover have "?t = take (length ?t - 6) ?t @ drop (length ?t - 6) ?t" by simp
      ultimately show False using assms by metis
    qed
    then show ?thesis using search_stripped [OF st] True by simp
  qed
  then show ?thesis
    unfolding extract_year_and_clean_title_def by (simp add: Let_def)
qed

text \<open>
  C1. \<open>None\<close> yields \<open>(None, None)\<close>. For a string \<open>raw\<close>, let \<open>t\<close> be \<open>raw\<close> trimmed.
  When \<open>t\<close> ends with an opening parenthesis, four digits and a closing parenthesis,
  the result is the integer the four digits spell, and the part of \<open>t\<close> before that
  suffix with its trailing whitespace removed and then, when that ends with a comma, the
  comma and the whitespace before it removed. When \<open>t\<close> has no such suffix, the result is
  \<open>t\<close> and no year. The three titles of the specification give the stated results.
\<close>

theorem title_parser:
  "extract_year_and_clean_title None = (None, None)
   \<and> (\<forall>pre d1 d2 d3 d4.
         strip raw = pre @ [CHR ''('', d1, d2, d3, d4, CHR '')'']
           \<and> isdigit d1 \<and> isdigit d2 \<and> isdigit d3 \<and> isdigit d4 \<longrightarrow>
         extract_year_and_clean_title (Some raw) =
           (Some (let t = rstrip pre
                  in if t \<noteq> [] \<and> last t = CHR '','' then rstrip (butlast t) else t),
            Some (int (1000 * digit_value d1 + 100 * digit_value d2
                        + 10 * digit_value d3 + digit_value d4))))
   \<and> ((\<nexists>pre d1 d2 d3 d4.
         strip raw = pre @ [CHR ''('', d1, d2, d3, d4, CHR '')'']
           \<and> isdigit d1 \<and> isdigit d2 \<and> isdigit d3 \<and> isdigit d4) \<longrightarrow>
       extract_year_and_clean_title (Some raw) = (Some (strip raw), None))
   \<and> extract_year_and_clean_title (Some ''Toy Story (1995)'') = (Some ''Toy Story'', Some 1995)
   \<and> extract_year_and_clean_title (Some ''Je, tu, il, elle (1974)'')
        = (Some ''Je, tu, il, elle'', Some 1974)
   \<and> extract_year_and_clean_title (Some ''No Year Movie'') = (Some ''No Year Movie'', None)"
proof (intro conjI allI impI)
  show "extract_year_and_clean_title None = (None, None)"
    by (simp add: extract_year_and_clean_title_def)
  show "extract_year_and_clean_title (Some ''Toy Story (1995)'') = (Some ''Toy Story'', Some 1995)"
    by code_simp
  show "extract_year_and_clean_title (Some ''Je, tu, il, elle (1974)'')
        = (Some ''Je, tu, il, elle'', Some 1974)"
    by code_simp
  show "extract_year_and_clean_title (Some ''No Year Movie'') = (Some ''No Year Movie'', None)"
    by code_simp
qed (use extract_match extract_no_match in blast)+

theorem title_parser_witness:
  "extract_year_and_clean_title (Some ''  Title, The , (1999) '') = (Some ''Title, The'', Some 1999)
   \<and> extract_year_and_clean_title (Some '' (199) '') = (Some ''(199)'', None)"
proof -
  have a: "strip ''  Title, The , (1999) '' = ''Title, The , '' @ [CHR ''('', CHR ''1'', CHR ''9'', CHR ''9'', CHR ''9'', CHR '')'']
      \<and> isdigit CHR ''1'' \<and> isdigit CHR ''9'' \<and> isdigit CHR ''9'' \<and> isdigit CHR ''9''"
    by code_simp
  have r: "(let t = rstrip ''Title, The , '' in if t \<noteq> [] \<and> last t = CHR '','' then rstrip (butlast t) else t) = ''Title, The''"
    by code_simp
  have v: "int (1000 * digit_value CHR ''1'' + 100 * digit_value CHR ''9'' + 10 * digit_value CHR ''9'' + digit_value CHR ''9'') = 1999"
    by code_simp
  have s: "strip '' (199) '' = ''(199)''" by code_simp
  have n: "\<nexists>pre d1 d2 d3 d4. strip '' (199) '' = pre @ [CHR ''('', d1, d2, d3, d4, CHR '')'']
           \<and> isdigit d1 \<and> isdigit d2 \<and> isdigit d3 \<and> isdigit d4"
  proof
    assume "\<exists>pre d1 d2 d3 d4. strip '' (199) '' = pre @ [CHR ''('', d1, d2, d3, d4, CHR '')'']
           \<and> isdigit d1 \<and> isdigit d2 \<and> isdigit d3 \<and> isdigit d4"
    then obtain pre d1 d2 d3 d4 where "''(199)'' = pre @ [CHR ''('', d1, d2, d3, d4, CHR '')'']"
      unfolding s by blast
    then have "length ''(199)'' = length (pre @ [CHR ''('', d1, d2, d3, d4, CHR '')''])" by simp
    then show False by simp
  qed
  from title_parser [of "''  Title, The , (1999) ''"] a
  have "extract_year_and_clean_title (Some ''  Title, The , (1999) '') = 
     (Some (let t = rstrip ''Title, The , '' in if t \<noteq> [] \<and> last t = CHR '','' then rstrip (butlast t) else t),
      Some (int (1000 * digit_value CHR ''1'' + 100 * digit_value CHR ''9'' + 10 * digit_value CHR ''9'' + digit_value CHR ''9'')))"
    by blast
  moreover from title_parser [of "'' (199) ''"] n
  have "extract_year_and_clean_title (Some '' (199) '') = (Some (strip '' (199) ''), None)"
    by blast
  ultimately show ?thesis by (simp only: r v s)
qed

section \<open>Integers as text\<close>



lemma str_nat_length_le: "n < 10 ^ Suc k \<Longrightarrow> length (str_nat n) \<le> Suc k"
proof (induction k arbitrary: n)
  case 0
  then have "n < 10" by simp
  then show ?case by (subst str_nat.simps) simp
next
  case (Suc k)
  show ?case
  proof (cases "n < 10")
    case True
    then show ?thesis by (subst str_nat.simps) simp
  next
    case False
    from Suc.prems have "n div 10 < 10 ^ Suc k"
      by (simp add: div_less_iff_less_mult mult.commute)
    from Suc.IH [OF this] have "length (str_nat (n div 10)) \<le> Suc k" .
    moreover have "str_nat n = str_nat (n div 10) @ [digit_char (n mod 10)]"
      using False by (subst str_nat.simps) simp
    ultimately show ?thesis by simp
  qed
qed

lemma max_digits_Suc: "int_max_str_digits = Suc 4299"
  by (simp add: int_max_str_digits_def)

lemma str_int_small:
  assumes "\<bar>i\<bar> < 10 ^ int_max_str_digits"
  shows "str_int i = Inr (if i < 0 then CHR ''-'' # str_nat (nat \<bar>i\<bar>) else str_nat (nat \<bar>i\<bar>))"
proof -
  from assms have "nat \<bar>i\<bar> < 10 ^ int_max_str_digits"
    by (metis nat_less_iff abs_ge_zero of_nat_numeral of_nat_power)
  then have "length (str_nat (nat \<bar>i\<bar>)) \<le> int_max_str_digits"
    unfolding max_digits_Suc by (rule str_nat_length_le)
  then show ?thesis by (simp add: str_int_def Let_def)
qed


lemma isdigit_value: "isdigit c \<Longrightarrow> digit_value c \<le> 9"
  unfolding isdigit_def digit_value_def by arith

lemma int_digits_bound:
  "int_digits acc s = Some n \<Longrightarrow> n < (acc + 1) * 10 ^ length (filter isdigit s)"
proof (induction acc s arbitrary: n rule: int_digits.induct)
  case (1 acc)
  then show ?case by simp
next
  case (2 acc c)
  then have d: "isdigit c" and n: "n = 10 * acc + digit_value c"
    by (simp_all split: if_splits)
  from isdigit_value [OF d] n show ?case using d by simp
next
  case (3 acc c d cs)
  show ?case
  proof (cases "isdigit c")
    case True
    with "3.prems" have "int_digits (10 * acc + digit_value c) (d # cs) = Some n" by simp
    from "3.IH"(1) [OF True this]
    have "n < (10 * acc + digit_value c + 1) * 10 ^ length (filter isdigit (d # cs))" .
    moreover have "10 * acc + digit_value c + 1 \<le> (acc + 1) * 10"
      using isdigit_value [OF True] by simp
    ultimately have "n < ((acc + 1) * 10) * 10 ^ length (filter isdigit (d # cs))"
      by (meson less_le_trans mult_le_mono1)
    moreover have "length (filter isdigit (c # d # cs)) = Suc (length (filter isdigit (d # cs)))"
      using True by simp
    ultimately show ?thesis by (simp only: power_Suc mult.assoc)
  next
    case False
    with "3.prems" have u: "c = CHR ''_'' \<and> isdigit d" and r: "int_digits acc (d # cs) = Some n"
      by (simp_all split: if_splits)
    from "3.IH"(2) [OF False u r] show ?thesis using False by simp
  qed
qed

lemma int_unsigned_bound:
  assumes "int_unsigned body = Some n"
  shows "n < 10 ^ int_max_str_digits"
proof -
  from assms have l: "length (filter isdigit body) \<le> int_max_str_digits"
    and d: "int_digits 0 body = Some n"
    by (simp_all add: int_unsigned_def split: list.splits if_splits)
  from int_digits_bound [OF d] have "n < 10 ^ length (filter isdigit body)" by simp
  also have "\<dots> \<le> 10 ^ int_max_str_digits"
    using l by (simp add: power_increasing)
  finally show ?thesis .
qed

lemma int_of_str_bound:
  assumes "int_of_str s = Some i"
  shows "\<bar>i\<bar> < 10 ^ int_max_str_digits"
proof -
  from assms obtain body n where "int_unsigned body = Some n" and "i = int n \<or> i = - int n"
    by (auto simp: int_of_str_def split: list.splits if_splits)
  from int_unsigned_bound [OF this(1)] this(2) have "\<bar>i\<bar> = int n" "n < 10 ^ int_max_str_digits"
    by auto
  then show ?thesis by (metis of_nat_less_iff of_nat_numeral of_nat_power)
qed

section \<open>Floats: evaluation and rendering\<close>

lemma bitlen_0: "bitlen 0 = 0" by (simp add: bitlen.simps)
lemma bitlen_1: "bitlen 1 = 1" by (simp add: bitlen.simps)
lemma bitlen_Suc_0: "bitlen (Suc 0) = 1" by (simp add: bitlen.simps)
lemma bitlen_Bit0: "bitlen (numeral (Num.Bit0 n)) = Suc (bitlen (numeral n))"
  by (subst bitlen.simps) (simp add: numeral_Bit0_div_2)
lemma bitlen_Bit1: "bitlen (numeral (Num.Bit1 n)) = Suc (bitlen (numeral n))"
  by (subst bitlen.simps) (simp add: numeral_Bit1_div_2)
lemmas bitlen_eval = bitlen_0 bitlen_1 bitlen_Suc_0 bitlen_Bit0 bitlen_Bit1

lemma str_nat_small: "n < 10 \<Longrightarrow> str_nat n = [digit_char n]"
  by (simp add: str_nat.simps)
lemma str_nat_big: "10 \<le> n \<Longrightarrow> str_nat n = str_nat (n div 10) @ [digit_char (n mod 10)]"
  by (subst str_nat.simps) simp

lemma shortest_digits_numeral:
  "shortest_digits (numeral v) m e k n =
     (case roundtrip_candidate m e (k - int n) of
        Some c \<Rightarrow> (c, k - int n)
      | None \<Rightarrow> shortest_digits (pred_numeral v) m e k (Suc n))"
  by (simp add: numeral_eq_Suc)

lemmas float_parse_eval = float_of_str_def int_strip_def int_isspace_def isdigit_def code_def
  digits_nat_def digit_value_def float_exponent_def round_decimal_def round_ratio_def
  floor_log2_def round_half_even_def bitlen_eval Let_def

lemmas float_str_eval = str_float_def shortest_def shortest_digits_numeral dec_point_def
  roundtrip_candidate_def nearest_def scaled_def round_decimal_def round_ratio_def
  floor_log2_def round_half_even_def bitlen_eval str_nat_small str_nat_big digit_char_def Let_def

lemma float_of_str_4: "float_of_str ''4'' = Some (Finite False 4503599627370496 (- 50))"
  by (simp add: float_parse_eval)

lemma str_float_4: "str_float (Finite False 4503599627370496 (- 50)) = ''4.0''"
  by (simp add: float_str_eval)

lemma float_of_str_350: "float_of_str ''3.50'' = Some (Finite False 7881299347898368 (- 51))"
  by (simp add: float_parse_eval)

lemma str_float_35: "str_float (Finite False 7881299347898368 (- 51)) = ''3.5''"
  by (simp add: float_str_eval)

lemma float_of_str_inf: "float_of_str ''inf'' = Some (Infinite False)"
  by code_simp

lemma float_of_str_nan: "float_of_str ''nan'' = Some NaN"
  by code_simp

lemma str_float_inf: "str_float (Infinite False) = ''inf''"
  by (simp add: str_float_def)

lemma str_float_nan: "str_float NaN = ''nan''"
  by (simp add: str_float_def)

lemma real_not_integer: "contains ''REAL'' ''REAL NOT NULL'' \<and> \<not> contains ''INTEGER'' ''REAL NOT NULL''"
  by simp

lemma coerce_real:
  assumes "contains ''REAL'' ctype" "\<not> contains ''INTEGER'' ctype" "s \<noteq> []"
  shows "coerce ctype (PStr s) =
    (case float_of_str s of None \<Rightarrow> Inr ''NULL'' | Some x \<Rightarrow> Inr (str_float x))"
  using assms by (simp add: coerce_def)

text \<open>
  C10. In a column whose type holds \<open>REAL\<close> (and not \<open>INTEGER\<close>, which is tested
  first), a non-empty string that \<^verbatim>\<open>float\<close> parses is emitted as \<^verbatim>\<open>str\<close> of the parsed
  number, not as the input text: \<^verbatim>\<open>4\<close> gives \<^verbatim>\<open>4.0\<close>, \<^verbatim>\<open>3.50\<close> gives \<^verbatim>\<open>3.5\<close>, and
  \<^verbatim>\<open>inf\<close> and \<^verbatim>\<open>nan\<close> parse and are emitted unquoted as \<^verbatim>\<open>inf\<close> and \<^verbatim>\<open>nan\<close>.
\<close>

theorem real_rendering:
  "(contains ''REAL'' ctype \<and> \<not> contains ''INTEGER'' ctype \<and> s \<noteq> [] \<and> float_of_str s = Some x
      \<longrightarrow> coerce ctype (PStr s) = Inr (str_float x))
   \<and> coerce ''REAL NOT NULL'' (PStr ''4'') = Inr ''4.0''
   \<and> coerce ''REAL NOT NULL'' (PStr ''3.50'') = Inr ''3.5''
   \<and> float_of_str ''inf'' = Some (Infinite False)
   \<and> coerce ''REAL NOT NULL'' (PStr ''inf'') = Inr ''inf''
   \<and> float_of_str ''nan'' = Some NaN
   \<and> coerce ''REAL NOT NULL'' (PStr ''nan'') = Inr ''nan''"
  using real_not_integer
  by (simp add: coerce_real float_of_str_4 str_float_4 float_of_str_350 str_float_35
      float_of_str_inf float_of_str_nan str_float_inf str_float_nan)

lemma float_of_str_025: "float_of_str ''0.25'' = Some (Finite False 4503599627370496 (- 54))"
  by (simp add: float_parse_eval)

lemma str_float_025: "str_float (Finite False 4503599627370496 (- 54)) = ''0.25''"
  by (simp add: float_str_eval)

theorem real_rendering_witness:
  "coerce ''REAL NOT NULL'' (PStr ''0.25'') = Inr ''0.25'' \<and> float_of_str ''0.25'' \<noteq> None"
  using real_rendering [of "''REAL NOT NULL''" "''0.25''" "Finite False 4503599627370496 (- 54)"]
    real_not_integer float_of_str_025 str_float_025
  by simp

section \<open>Coercion to literals\<close>

lemma sql_quote_str: "\<exists>lit. sql_quote (PStr s) = Inr lit"
  by (simp add: sql_quote_def)

lemma coerce_str: "\<exists>lit. coerce ctype (PStr s) = Inr lit"
proof (cases "int_of_str s")
  case None
  then show ?thesis by (simp add: coerce_def sql_quote_def split: option.splits)
next
  case (Some i)
  from str_int_small [OF int_of_str_bound [OF Some]] obtain lit where "str_int i = Inr lit"
    by blast
  with Some show ?thesis by (simp add: coerce_def sql_quote_def split: option.splits)
qed

lemma coerce_int:
  assumes "\<bar>i\<bar> < 10 ^ int_max_str_digits"
  shows "\<exists>lit. coerce ctype (PInt i) = Inr lit"
proof -
  from str_int_small [OF assms] obtain lit where "str_int i = Inr lit" by blast
  then show ?thesis by (simp add: coerce_def sql_quote_def split: option.splits)
qed

lemma coerce_printable: "printable v \<Longrightarrow> \<exists>lit. coerce ctype v = Inr lit"
proof (cases v)
  case PNone
  then show ?thesis by (simp add: coerce_def)
next
  case (PStr s)
  then show ?thesis using coerce_str by simp
next
  case (PInt i)
  assume "printable v"
  with PInt have "\<bar>i\<bar> < 10 ^ int_max_str_digits" by (simp add: printable_def)
  from coerce_int [OF this] PInt show ?thesis by simp
qed








section \<open>Rows shorter than the table\<close>


lemma list_index_mem: "x \<in> set xs \<Longrightarrow> \<exists>i. list_index xs x = Some i"
proof (induction xs)
  case Nil
  then show ?case by simp
next
  case (Cons y ys)
  show ?case
  proof (cases "y = x")
    case True
    then show ?thesis by simp
  next
    case False
    with Cons.prems have "x \<in> set ys" by simp
    from Cons.IH [OF this] obtain i where "list_index ys x = Some i" ..
    with False show ?thesis by simp
  qed
qed

lemma printable_field:
  "list_all printable r \<Longrightarrow> printable (if j < length r then r ! j else PNone)"
  by (simp add: list_all_length printable_def)

lemma coerce_field:
  assumes "list_all printable r"
  shows "\<exists>lit. coerce ctype (if j < length r then r ! j else PNone) = Inr lit"
  using coerce_printable [OF printable_field [OF assms]] .




lemma row_vals_total:
  assumes p: "list_all printable r"
  shows "fst ` set columns \<subseteq> set col_names \<Longrightarrow> \<exists>vals. row_vals col_names columns r = Inr vals"
proof (induction columns)
  case Nil
  then show ?case by simp
next
  case (Cons c columns)
  obtain name ctype where c: "c = (name, ctype)" by (cases c)
  from Cons.prems c have n: "name \<in> set col_names" and sub: "fst ` set columns \<subseteq> set col_names"
    by simp_all
  from list_index_mem [OF n] obtain i where i: "list_index col_names name = Some i" ..
  from coerce_field [OF p] obtain lit where
    l: "coerce ctype (if i < length r then r ! i else PNone) = Inr lit" by blast
  from Cons.IH [OF sub] obtain vals where v: "row_vals col_names columns r = Inr vals" ..
  show ?case unfolding c by (simp add: i l v Let_def)
qed

lemma values_sql_total:
  assumes sub: "fst ` set columns \<subseteq> set col_names"
  shows "list_all (list_all printable) rows \<Longrightarrow>
     \<exists>vs. values_sql col_names columns rows = Inr vs \<and> length vs = length rows"
proof (induction rows)
  case Nil
  then show ?case by simp
next
  case (Cons r rows)
  from Cons.prems have p: "list_all printable r" and ps: "list_all (list_all printable) rows"
    by simp_all
  from row_vals_total [OF p sub] obtain vals where a: "row_vals col_names columns r = Inr vals" ..
  from Cons.IH [OF ps] obtain vs where
    b: "values_sql col_names columns rows = Inr vs" "length vs = length rows" by blast
  show ?case by (simp add: a b)
qed

lemma generate_insert_sql_total:
  assumes "list_all (list_all printable) rows"
  shows "\<exists>sql. generate_insert_sql table_name columns rows = Inr sql"
proof -
  have "fst ` set columns \<subseteq> set (map fst columns)" by simp
  from values_sql_total [OF this assms] obtain vs where
    "values_sql (map fst columns) columns rows = Inr vs" by blast
  then show ?thesis by (simp add: generate_insert_sql_def)
qed





lemma extract_year_bound:
  assumes "extract_year_and_clean_title x = (t, Some y)"
  shows "\<bar>y\<bar> < 10 ^ int_max_str_digits"
proof -
  from assms obtain g where "int_of_str g = Some y"
    by (auto simp: extract_year_and_clean_title_def Let_def split: option.splits)
  then show ?thesis by (rule int_of_str_bound)
qed

lemma printable_PStr: "list_all printable (map PStr raw)"
  by (simp add: list_all_iff printable_def)

lemma printable_opt_str: "printable (opt_str t)"
  by (cases t) (simp_all add: opt_str_def printable_def)

lemma printable_year:
  assumes "extract_year_and_clean_title x = (t, y)"
  shows "printable (opt_int y)"
proof (cases y)
  case None
  then show ?thesis by (simp add: opt_int_def printable_def)
next
  case (Some i)
  with assms extract_year_bound have "\<bar>i\<bar> < 10 ^ int_max_str_digits" by blast
  with Some show ?thesis by (simp add: opt_int_def printable_def)
qed

lemma printable_movie_row: "list_all printable (movie_row raw)"
proof -
  obtain t y where e: "extract_year_and_clean_title
      (if 1 < length raw then Some (raw ! 1) else None) = (t, y)"
    by (cases "extract_year_and_clean_title (if 1 < length raw then Some (raw ! 1) else None)")
  have m: "movie_row raw =
      [if 0 < length raw then PStr (raw ! 0) else PNone, opt_str t, opt_int y,
       if 2 < length raw then PStr (raw ! 2) else PNone]"
    unfolding movie_row_def Let_def e by simp
  have "printable (if 0 < length raw then PStr (raw ! 0) else PNone)"
    "printable (if 2 < length raw then PStr (raw ! 2) else PNone)"
    by (simp_all add: printable_def)
  with printable_opt_str [of t] printable_year [OF e] show ?thesis
    unfolding m by simp
qed








section \<open>The movies rows\<close>

lemma movie_row_length: "length (movie_row r) = 4"
  by (simp add: movie_row_def Let_def split: prod.splits)

lemma movie_row_three:
  "movie_row [a, b, c] =
     [PStr a, opt_str (fst (extract_year_and_clean_title (Some b))),
      opt_int (snd (extract_year_and_clean_title (Some b))), PStr c]"
  by (simp add: movie_row_def Let_def split: prod.splits)

lemma toy_story_row:
  "movie_row [''1'', ''Toy Story (1995)'', ''Adventure|Animation'']
     = [PStr ''1'', PStr ''Toy Story'', PInt 1995, PStr ''Adventure|Animation'']"
  by code_simp

lemma toy_story_insert:
  "generate_insert_sql ''movies'' (detect_movies_schema [])
      [[PStr ''1'', PStr ''Toy Story'', PInt 1995, PStr ''Adventure|Animation'']]
     = Inr ''INSERT INTO movies (id, title, year, genres) VALUES\<newline>(1, 'Toy Story', 1995, 'Adventure|Animation');\<newline>''"
  by code_simp

text \<open>
  C8. Every transformed movies row has four values. A raw row of three fields
  \<open>[id, title, genres]\<close> becomes \<open>[id, clean title, year, genres]\<close>, the title and the
  year being what the title parser returns for the second field. The raw row
  \<^verbatim>\<open>["1", "Toy Story (1995)", "Adventure|Animation"]\<close> is emitted as the row
  \<^verbatim>\<open>(1, 'Toy Story', 1995, 'Adventure|Animation')\<close> of the INSERT statement.
\<close>

theorem movies_row_transform:
  "length (movie_row r) = 4
   \<and> movie_row [a, b, c] =
       [PStr a, opt_str (fst (extract_year_and_clean_title (Some b))),
        opt_int (snd (extract_year_and_clean_title (Some b))), PStr c]
   \<and> movie_row [''1'', ''Toy Story (1995)'', ''Adventure|Animation'']
       = [PStr ''1'', PStr ''Toy Story'', PInt 1995, PStr ''Adventure|Animation'']
   \<and> generate_insert_sql ''movies'' (detect_movies_schema s)
         [movie_row [''1'', ''Toy Story (1995)'', ''Adventure|Animation'']]
       = Inr ''INSERT INTO movies (id, title, year, genres) VALUES\<newline>(1, 'Toy Story', 1995, 'Adventure|Animation');\<newline>''"
proof (intro conjI)
  have "detect_movies_schema s = detect_movies_schema []"
    by (simp add: detect_movies_schema_def)
  then show "generate_insert_sql ''movies'' (detect_movies_schema s)
         [movie_row [''1'', ''Toy Story (1995)'', ''Adventure|Animation'']]
       = Inr ''INSERT INTO movies (id, title, year, genres) VALUES\<newline>(1, 'Toy Story', 1995, 'Adventure|Animation');\<newline>''"
    by (simp only: toy_story_row toy_story_insert)
qed (rule movie_row_length movie_row_three toy_story_row)+

section \<open>The assembled script\<close>

lemma generate_insert_sql_Nil: "generate_insert_sql table_name columns [] = Inr ''''"
  by (simp add: generate_insert_sql_def)

lemma generate_insert_sql_Cons:
  assumes "list_all (list_all printable) (r # rows)"
  shows "\<exists>sql. generate_insert_sql table_name columns (r # rows) = Inr sql \<and> sql \<noteq> []"
proof -
  have "fst ` set columns \<subseteq> set (map fst columns)" by simp
  from values_sql_total [OF this assms] obtain vs where
    vs: "values_sql (map fst columns) columns (r # rows) = Inr vs" "length vs = length (r # rows)"
    by blast
  then have "vs \<noteq> []" by auto
  with vs(1) show ?thesis by (simp add: generate_insert_sql_def)
qed

lemma insert_part_block:
  assumes "list_all (list_all printable) rows"
  shows "insert_part table_name columns rows
    = Inr (block (generate_insert_sql table_name columns rows))"
proof (cases rows)
  case Nil
  then show ?thesis by (simp add: insert_part_def block_def generate_insert_sql_Nil)
next
  case (Cons r rs)
  from generate_insert_sql_Cons assms Cons obtain sql where
    "generate_insert_sql table_name columns (r # rs) = Inr sql" "sql \<noteq> []" by blast
  with Cons show ?thesis by (simp add: insert_part_def block_def)
qed

lemma block_nonempty: "list_all (\<lambda>p. p \<noteq> []) (block b)"
  by (simp add: block_def split: sum.splits)

lemma create_nonempty: "generate_create_table_sql table_name columns \<noteq> []"
  by (simp add: generate_create_table_sql_def)

lemma fixed_nonempty: "list_all (\<lambda>p. p \<noteq> []) (fixed_parts s1 s2 s3 s4)"
  by (simp add: fixed_parts_def create_nonempty)

lemma filter_all: "list_all P xs \<Longrightarrow> filter P xs = xs"
  by (induction xs) auto

lemma schema_const:
  "detect_movies_schema a = detect_movies_schema s1"
  "detect_ratings_schema b = detect_ratings_schema s2"
  "detect_tags_schema c = detect_tags_schema s3"
  "detect_users_schema d = detect_users_schema s4"
  by (simp_all add: detect_movies_schema_def detect_ratings_schema_def detect_tags_schema_def
      detect_users_schema_def)

lemma script_parts_nonempty: "list_all (\<lambda>p. p \<noteq> []) (script_parts s1 s2 s3 s4 m r t u)"
  by (simp add: script_parts_def fixed_nonempty block_nonempty)

lemma printable_movie_rows: "list_all (list_all printable) (map movie_row m)"
  by (induction m) (simp_all add: printable_movie_row)

lemma printable_PStr_rows: "list_all (list_all printable) (map (map PStr) rows)"
  by (induction rows) (simp_all add: printable_PStr)

lemma assemble_parts:
  "assemble m r t u = Inr (join ''\<newline>\<newline>'' (script_parts s1 s2 s3 s4 m r t u))"
proof -
  have f: "filter (\<lambda>p. p \<noteq> []) (script_parts s1 s2 s3 s4 m r t u) = script_parts s1 s2 s3 s4 m r t u"
    by (rule filter_all [OF script_parts_nonempty])
  have "assemble m r t u = Inr (join ''\<newline>\<newline>'' (filter (\<lambda>p. p \<noteq> []) (script_parts s1 s2 s3 s4 m r t u)))"
    unfolding assemble_def Let_def insert_part_block [OF printable_movie_rows]
      insert_part_block [OF printable_PStr_rows] script_parts_def fixed_parts_def
      schema_const(1) [of "sample_row m" s1] schema_const(2) [of "sample_row r" s2]
      schema_const(3) [of "sample_row t" s3] schema_const(4) [of "sample_row u" s4]
    by simp
  with f show ?thesis by simp
qed

lemma block_Nil: "block (generate_insert_sql table_name columns []) = []"
  by (simp add: block_def generate_insert_sql_Nil)

text \<open>
  C5. The script is the join, with an empty line between two parts, of: the header
  comment, the PRAGMA line, BEGIN TRANSACTION, the DROP and CREATE block of movies,
  ratings, tags and users, then the INSERT block of movies, ratings, tags and users,
  each left out when it is empty, then COMMIT. No part that is joined is empty, and
  generating the four INSERT blocks never fails.
\<close>

theorem script_order:
  "(let parts =
       [''-- SQLite init script for movies_rating.db'',
        ''PRAGMA foreign_keys = OFF;'',
        ''BEGIN TRANSACTION;'',
        generate_create_table_sql ''movies'' (detect_movies_schema s1),
        generate_create_table_sql ''ratings'' (detect_ratings_schema s2),
        generate_create_table_sql ''tags'' (detect_tags_schema s3),
        generate_create_table_sql ''users'' (detect_users_schema s4)]
       @ block (generate_insert_sql ''movies'' (detect_movies_schema s1) (map movie_row m))
       @ block (generate_insert_sql ''ratings'' (detect_ratings_schema s2) (map (map PStr) r))
       @ block (generate_insert_sql ''tags'' (detect_tags_schema s3) (map (map PStr) t))
       @ block (generate_insert_sql ''users'' (detect_users_schema s4) (map (map PStr) u))
       @ [''COMMIT;'']
    in assemble m r t u = Inr (join ''\<newline>\<newline>'' parts) \<and> list_all (\<lambda>p. p \<noteq> []) parts)
   \<and> (\<exists>i1 i2 i3 i4.
         generate_insert_sql ''movies'' (detect_movies_schema s1) (map movie_row m) = Inr i1
         \<and> generate_insert_sql ''ratings'' (detect_ratings_schema s2) (map (map PStr) r) = Inr i2
         \<and> generate_insert_sql ''tags'' (detect_tags_schema s3) (map (map PStr) t) = Inr i3
         \<and> generate_insert_sql ''users'' (detect_users_schema s4) (map (map PStr) u) = Inr i4)"
proof -
  have "assemble m r t u = Inr (join ''\<newline>\<newline>'' (script_parts s1 s2 s3 s4 m r t u))"
    by (rule assemble_parts)
  moreover have "list_all (\<lambda>p. p \<noteq> []) (script_parts s1 s2 s3 s4 m r t u)"
    by (rule script_parts_nonempty)
  moreover have "\<exists>i1. generate_insert_sql ''movies'' (detect_movies_schema s1) (map movie_row m) = Inr i1"
    by (rule generate_insert_sql_total [OF printable_movie_rows])
  moreover have "\<exists>i2. generate_insert_sql ''ratings'' (detect_ratings_schema s2) (map (map PStr) r) = Inr i2"
    by (rule generate_insert_sql_total [OF printable_PStr_rows])
  moreover have "\<exists>i3. generate_insert_sql ''tags'' (detect_tags_schema s3) (map (map PStr) t) = Inr i3"
    by (rule generate_insert_sql_total [OF printable_PStr_rows])
  moreover have "\<exists>i4. generate_insert_sql ''users'' (detect_users_schema s4) (map (map PStr) u) = Inr i4"
    by (rule generate_insert_sql_total [OF printable_PStr_rows])
  ultimately show ?thesis
    unfolding script_parts_def fixed_parts_def Let_def by blast
qed

text \<open>
  C6. For zero rows \<open>generate_insert_sql\<close> returns the empty string. When a dataset has
  no rows, the script is the join of the seven fixed parts, which hold the DROP and
  CREATE block of every table, the INSERT blocks of the other datasets and COMMIT:
  the INSERT block of the empty dataset is not among the joined parts, so no separator
  stands for it. With all four datasets empty the script is the text given in full.
\<close>

theorem empty_dataset_omitted:
  "generate_insert_sql table_name columns [] = Inr ''''
   \<and> assemble [] r t u = Inr (join ''\<newline>\<newline>'' (fixed_parts s1 s2 s3 s4
         @ block (generate_insert_sql ''ratings'' (detect_ratings_schema s2) (map (map PStr) r))
         @ block (generate_insert_sql ''tags'' (detect_tags_schema s3) (map (map PStr) t))
         @ block (generate_insert_sql ''users'' (detect_users_schema s4) (map (map PStr) u))
         @ [''COMMIT;'']))
   \<and> assemble m [] t u = Inr (join ''\<newline>\<newline>'' (fixed_parts s1 s2 s3 s4
         @ block (generate_insert_sql ''movies'' (detect_movies_schema s1) (map movie_row m))
         @ block (generate_insert_sql ''tags'' (detect_tags_schema s3) (map (map PStr) t))
         @ block (generate_insert_sql ''users'' (detect_users_schema s4) (map (map PStr) u))
         @ [''COMMIT;'']))
   \<and> assemble m r [] u = Inr (join ''\<newline>\<newline>'' (fixed_parts s1 s2 s3 s4
         @ block (generate_insert_sql ''movies'' (detect_movies_schema s1) (map movie_row m))
         @ block (generate_insert_sql ''ratings'' (detect_ratings_schema s2) (map (map PStr) r))
         @ block (generate_insert_sql ''users'' (detect_users_schema s4) (map (map PStr) u))
         @ [''COMMIT;'']))
   \<and> assemble m r t [] = Inr (join ''\<newline>\<newline>'' (fixed_parts s1 s2 s3 s4
         @ block (generate_insert_sql ''movies'' (detect_movies_schema s1) (map movie_row m))
         @ block (generate_insert_sql ''ratings'' (detect_ratings_schema s2) (map (map PStr) r))
         @ block (generate_insert_sql ''tags'' (detect_tags_schema s3) (map (map PStr) t))
         @ [''COMMIT;'']))
   \<and> fixed_parts s1 s2 s3 s4 =
       [''-- SQLite init script for movies_rating.db'',
        ''PRAGMA foreign_keys = OFF;'',
        ''BEGIN TRANSACTION;'',
        generate_create_table_sql ''movies'' (detect_movies_schema s1),
        generate_create_table_sql ''ratings'' (detect_ratings_schema s2),
        generate_create_table_sql ''tags'' (detect_tags_schema s3),
        generate_create_table_sql ''users'' (detect_users_schema s4)]
   \<and> assemble [] [] [] [] = Inr
       ''-- SQLite init script for movies_rating.db\<newline>\<newline>PRAGMA foreign_keys = OFF;\<newline>\<newline>BEGIN TRANSACTION;\<newline>\<newline>DROP TABLE IF EXISTS movies;\<newline>CREATE TABLE movies (\<newline>    id INTEGER PRIMARY KEY,\<newline>    title TEXT NOT NULL,\<newline>    year INTEGER,\<newline>    genres TEXT\<newline>);\<newline>\<newline>\<newline>DROP TABLE IF EXISTS ratings;\<newline>CREATE TABLE ratings (\<newline>    id INTEGER PRIMARY KEY,\<newline>    user_id INTEGER NOT NULL,\<newline>    movie_id INTEGER NOT NULL,\<newline>    rating REAL NOT NULL,\<newline>    timestamp INTEGER NOT NULL\<newline>);\<newline>\<newline>\<newline>DROP TABLE IF EXISTS tags;\<newline>CREATE TABLE tags (\<newline>    id INTEGER PRIMARY KEY,\<newline>    user_id INTEGER NOT NULL,\<newline>    movie_id INTEGER NOT NULL,\<newline>    tag TEXT NOT NULL,\<newline>    timestamp INTEGER NOT NULL\<newline>);\<newline>\<newline>\<newline>DROP TABLE IF EXISTS users;\<newline>CREATE TABLE users (\<newline>    id INTEGER PRIMARY KEY,\<newline>    name TEXT NOT NULL,\<newline>    email TEXT NOT NULL,\<newline>    gender TEXT,\<newline>    register_date TEXT NOT NULL,\<newline>    occupation TEXT\<newline>);\<newline>\<newline>\<newline>COMMIT;''"
proof (intro conjI)
  show "generate_insert_sql table_name columns [] = Inr ''''"
    by (rule generate_insert_sql_Nil)
  show "fixed_parts s1 s2 s3 s4 =
       [''-- SQLite init script for movies_rating.db'',
        ''PRAGMA foreign_keys = OFF;'',
        ''BEGIN TRANSACTION;'',
        generate_create_table_sql ''movies'' (detect_movies_schema s1),
        generate_create_table_sql ''ratings'' (detect_ratings_schema s2),
        generate_create_table_sql ''tags'' (detect_tags_schema s3),
        generate_create_table_sql ''users'' (detect_users_schema s4)]"
    by (simp add: fixed_parts_def)
  show "assemble [] [] [] [] = Inr
       ''-- SQLite init script for movies_rating.db\<newline>\<newline>PRAGMA foreign_keys = OFF;\<newline>\<newline>BEGIN TRANSACTION;\<newline>\<newline>DROP TABLE IF EXISTS movies;\<newline>CREATE TABLE movies (\<newline>    id INTEGER PRIMARY KEY,\<newline>    title TEXT NOT NULL,\<newline>    year INTEGER,\<newline>    genres TEXT\<newline>);\<newline>\<newline>\<newline>DROP TABLE IF EXISTS ratings;\<newline>CREATE TABLE ratings (\<newline>    id INTEGER PRIMARY KEY,\<newline>    user_id INTEGER NOT NULL,\<newline>    movie_id INTEGER NOT NULL,\<newline>    rating REAL NOT NULL,\<newline>    timestamp INTEGER NOT NULL\<newline>);\<newline>\<newline>\<newline>DROP TABLE IF EXISTS tags;\<newline>CREATE TABLE tags (\<newline>    id INTEGER PRIMARY KEY,\<newline>    user_id INTEGER NOT NULL,\<newline>    movie_id INTEGER NOT NULL,\<newline>    tag TEXT NOT NULL,\<newline>    timestamp INTEGER NOT NULL\<newline>);\<newline>\<newline>\<newline>DROP TABLE IF EXISTS users;\<newline>CREATE TABLE users (\<newline>    id INTEGER PRIMARY KEY,\<newline>    name TEXT NOT NULL,\<newline>    email TEXT NOT NULL,\<newline>    gender TEXT,\<newline>    register_date TEXT NOT NULL,\<newline>    occupation TEXT\<newline>);\<newline>\<newline>\<newline>COMMIT;''"
    unfolding assemble_parts [of "[]" "[]" "[]" "[]" "[]" "[]" "[]" "[]"]
    by (simp add: script_parts_def fixed_parts_def block_Nil generate_create_table_sql_def
        detect_movies_schema_def detect_ratings_schema_def detect_tags_schema_def
        detect_users_schema_def)
qed (simp_all add: assemble_parts [of _ _ _ _ s1 s2 s3 s4] script_parts_def block_Nil)

section \<open>The row reader\<close>

lemmas csv_eval = parse_process_char_def start_field_def parse_add_char_def parse_save_field_def
  parse_reset_def is_newline_def after_line_def field_limit_def

lemma quoted_header_lines:
  "file_lines quoted_header_file =
     [[CHR 0x22, CHR ''i'', CHR ''d'', CHR 0x0A], [CHR ''f'', CHR ''o'', CHR ''o'', CHR 0x22, CHR '','', CHR ''x'', CHR 0x0A], ''1,2\<newline>'']"
  by (simp add: file_lines_def quoted_header_file_def)

lemma quoted_header_has_header: "has_header (readline quoted_header_file)"
  by (simp add: readline_def quoted_header_lines has_header_def header_keywords_def lower_def
      lower_char_def code_def)

lemma quoted_header_records:
  "reader_records (CHR '','') parse_reset (file_lines quoted_header_file)
     = Inr [[''id\<newline>foo'', ''x''], [''1'', ''2'']]"
  by (simp add: quoted_header_lines csv_eval)

lemma quoted_header_tail_records:
  "reader_records (CHR '','') parse_reset (tl (file_lines quoted_header_file))
     = Inr [[[CHR ''f'', CHR ''o'', CHR ''o'', CHR 0x22], ''x''], [''1'', ''2'']]"
  by (simp add: quoted_header_lines csv_eval)

lemma quoted_header_kept: "row_kept [''1'', ''2''] \<and> row_kept [[CHR ''f'', CHR ''o'', CHR ''o'', CHR 0x22], ''x'']"
  by (simp add: row_kept_def strip_def lstrip_def rstrip_def isspace_def code_def)

lemma quoted_header_rows: "read_csv_rows quoted_header_file (CHR '','') = Inr [[''1'', ''2'']]"
  by (simp add: read_csv_rows_def quoted_header_has_header quoted_header_records quoted_header_kept)

lemma quoted_header_not_empty: "\<not> row_empty [''1'', ''2''] \<and> \<not> row_empty [[CHR ''f'', CHR ''o'', CHR ''o'', CHR 0x22], ''x'']"
  by (simp add: row_empty_def strip_def lstrip_def rstrip_def isspace_def code_def)

lemma quoted_header_rows_by_line: "read_csv_rows_by_line quoted_header_file (CHR '','')
    = Inr [[[CHR ''f'', CHR ''o'', CHR ''o'', CHR 0x22], ''x''], [''1'', ''2'']]"
  by (simp add: read_csv_rows_by_line_def quoted_header_has_header quoted_header_tail_records quoted_header_not_empty)

text \<open>
  C7, as stated, fails on this file: its first physical line holds \<^verbatim>\<open>id\<close>, the reader
  skips the whole first record, which runs over two lines, and yields one row, while
  skipping the first physical line only would yield two rows.
\<close>

theorem first_line_skip_counterexample:
  "has_header (readline quoted_header_file)
   \<and> read_csv_rows quoted_header_file (CHR '','') = Inr [[''1'', ''2'']]
   \<and> read_csv_rows_by_line quoted_header_file (CHR '','')
        = Inr [[[CHR ''f'', CHR ''o'', CHR ''o'', CHR 0x22], ''x''], [''1'', ''2'']]
   \<and> read_csv_rows quoted_header_file (CHR '','')
        \<noteq> read_csv_rows_by_line quoted_header_file (CHR '','')"
  by (simp add: quoted_header_rows quoted_header_rows_by_line quoted_header_has_header)

lemma startswith_iff: "startswith s p \<longleftrightarrow> (\<exists>post. s = p @ post)"
  by (induction s p rule: startswith.induct) auto

lemma contains_iff: "contains sub s \<longleftrightarrow> (\<exists>pre post. s = pre @ sub @ post)"
proof (induction s)
  case Nil
  then show ?case by auto
next
  case (Cons c cs)
  show ?case
  proof
    assume "contains sub (c # cs)"
    then consider "startswith (c # cs) sub" | "contains sub cs" by auto
    then show "\<exists>pre post. c # cs = pre @ sub @ post"
    proof cases
      case 1
      then obtain post where "c # cs = sub @ post" using startswith_iff by blast
      then have "c # cs = [] @ sub @ post" by simp
      then show ?thesis by blast
    next
      case 2
      with Cons.IH obtain pre post where "cs = pre @ sub @ post" by blast
      then have "c # cs = (c # pre) @ sub @ post" by simp
      then show ?thesis by blast
    qed
  next
    assume "\<exists>pre post. c # cs = pre @ sub @ post"
    then obtain pre post where e: "c # cs = pre @ sub @ post" by blast
    show "contains sub (c # cs)"
    proof (cases pre)
      case Nil
      with e have "startswith (c # cs) sub" using startswith_iff by auto
      then show ?thesis by simp
    next
      case (Cons p ps)
      with e have "cs = ps @ sub @ post" by simp
      with Cons.IH have "contains sub cs" by blast
      then show ?thesis by simp
    qed
  qed
qed

lemma has_header_iff:
  "has_header line \<longleftrightarrow> (\<exists>k pre post. k \<in> set header_keywords \<and> lower line = pre @ k @ post)"
  unfolding has_header_def list_ex_iff contains_iff by blast

lemma row_kept_iff: "row_kept row \<longleftrightarrow> \<not> row_empty row"
  by (cases row) (auto simp: row_kept_def row_empty_def list_ex_iff list_all_iff)

lemma filter_row_kept: "filter row_kept recs = filter (\<lambda>row. \<not> row_empty row) recs"
  by (induction recs) (simp_all add: row_kept_iff)

lemma read_csv_rows_records:
  "read_csv_rows content delimiter =
     (case reader_records delimiter parse_reset (file_lines content) of
        Inl err \<Rightarrow> Inl err
      | Inr recs \<Rightarrow>
          Inr (filter (\<lambda>row. \<not> row_empty row)
                 (if has_header (readline content) then tl recs else recs)))"
  by (simp add: read_csv_rows_def Let_def filter_row_kept drop_Suc split: sum.splits)

lemma first_line_complete:
  assumes "file_lines content = l # ls"
    and "process_line delimiter parse_reset l = Inr r'" and "state r' = START_RECORD"
  shows "read_csv_rows content delimiter = read_csv_rows_by_line content delimiter"
proof (cases "has_header (readline content)")
  case False
  then show ?thesis
    by (simp add: read_csv_rows_records read_csv_rows_by_line_def Let_def split: sum.splits)
next
  case True
  have "reader_records delimiter parse_reset (l # ls) =
      (case reader_records delimiter parse_reset ls of
         Inl err \<Rightarrow> Inl err
       | Inr recs \<Rightarrow> Inr (record_fields r' # recs))"
    using assms(2,3) by simp
  with True assms(1) show ?thesis
    by (simp add: read_csv_rows_records read_csv_rows_by_line_def Let_def split: sum.splits)
qed

text \<open>
  C7, amended. The row reader yields the records of the file that are not empty, in
  order, without the first record exactly when the first physical line holds, in any
  case of letters, one of the keywords; a failure of the \<^verbatim>\<open>csv\<close> reader is raised. The
  first record is the first physical line whenever the reader is at the start of a
  record again after that line (no quoted field is still open): then skipping the
  first record and skipping the first physical line give the same rows.
\<close>

theorem row_reader:
  "read_csv_rows content delimiter =
     (case reader_records delimiter parse_reset (file_lines content) of
        Inl err \<Rightarrow> Inl err
      | Inr recs \<Rightarrow>
          Inr (filter (\<lambda>row. \<not> row_empty row)
                 (if has_header (readline content) then tl recs else recs)))
   \<and> (has_header (readline content) \<longleftrightarrow>
        (\<exists>k pre post. k \<in> set header_keywords \<and> lower (readline content) = pre @ k @ post))
   \<and> (\<forall>l ls r'. file_lines content = l # ls
          \<and> process_line delimiter parse_reset l = Inr r' \<and> state r' = START_RECORD
        \<longrightarrow> read_csv_rows content delimiter = read_csv_rows_by_line content delimiter)"
  using read_csv_rows_records [of content delimiter] has_header_iff [of "readline content"]
    first_line_complete [of content _ _ delimiter]
  by blast

lemma plain_header_lines: "file_lines ''id,title\<newline>1,a\<newline>'' = [''id,title\<newline>'', ''1,a\<newline>'']"
  by (simp add: file_lines_def)

lemma plain_header_first:
  "process_line (CHR '','') parse_reset ''id,title\<newline>''
     = Inr \<lparr>state = START_RECORD, record_fields = [''id'', ''title''], field = []\<rparr>"
  by (simp add: csv_eval)

lemma plain_header_by_line:
  "read_csv_rows_by_line ''id,title\<newline>1,a\<newline>'' (CHR '','') = Inr [[''1'', ''a'']]"
  by (simp add: read_csv_rows_by_line_def readline_def plain_header_lines has_header_def
      header_keywords_def lower_def lower_char_def code_def csv_eval row_empty_def strip_def
      lstrip_def rstrip_def isspace_def)

theorem row_reader_witness:
  "read_csv_rows ''id,title\<newline>1,a\<newline>'' (CHR '','') = Inr [[''1'', ''a'']]"
proof -
  have "file_lines ''id,title\<newline>1,a\<newline>'' = ''id,title\<newline>'' # [''1,a\<newline>'']
      \<and> process_line (CHR '','') parse_reset ''id,title\<newline>''
          = Inr \<lparr>state = START_RECORD, record_fields = [''id'', ''title''], field = []\<rparr>
      \<and> state \<lparr>state = START_RECORD, record_fields = [''id'', ''title''], field = []\<rparr> = START_RECORD"
    using plain_header_lines plain_header_first by simp
  with row_reader [of "''id,title\<newline>1,a\<newline>''" "CHR '',''"]
  have "read_csv_rows ''id,title\<newline>1,a\<newline>'' (CHR '','')
      = read_csv_rows_by_line ''id,title\<newline>1,a\<newline>'' (CHR '','')"
    by blast
  then show ?thesis by (simp only: plain_header_by_line)
qed

end
